theory Spec2Isabelle
  imports Main "HOL-Library.Multiset" "HOL-Library.AList"
begin

section \<open>The canonical message model (pkg/provider/provider.go)\<close>

text \<open>
  Go strings are byte sequences; they are modelled as \<open>string\<close> (lists of 8-bit
  characters). Go's \<open>int\<close> is modelled as \<open>int\<close>: the only arithmetic the loop does on
  it is \<open>i + 1\<close> with \<open>i < MaxIterations\<close>, which cannot leave the 64-bit range.
\<close>

record ToolCall =
  tc_ID :: string
  tc_Name :: string
  tc_Arguments :: string

record Message =
  m_Role :: string
  m_Content :: string
  m_ToolCalls :: "ToolCall list"
  m_ToolCallID :: string

record ParameterDef =
  pd_Type :: string
  pd_Description :: string
  pd_Required :: bool

text \<open>
  \<open>ToolDef.Parameters\<close> holds the JSON schema that \<open>buildJSONSchema\<close> builds from a
  command's parameter table; the model keeps the table itself.
\<close>

record ToolDef =
  td_Name :: string
  td_Description :: string
  td_Parameters :: "(string \<times> ParameterDef) list"

record Usage =
  u_PromptTokens :: int
  u_CompletionTokens :: int

record ChatRequest =
  rq_Model :: string
  rq_Messages :: "Message list"
  rq_Tools :: "ToolDef list"
  rq_MaxTokens :: int

record ChatResponse =
  r_Content :: string
  r_ToolCalls :: "ToolCall list"
  r_Usage :: Usage

section \<open>Values decoded by encoding/json and their \<open>%v\<close> form\<close>

text \<open>
  \<open>json.Unmarshal\<close> into \<open>any\<close> yields nil, bool, float64, string, \<open>[]any\<close> or
  \<open>map[string]any\<close>. A Go map is modelled by the list of its entries, keys distinct, in
  the order in which the \<open>range\<close> loop that reads it visits them; the theorems hold for
  every such order. The type \<open>'n\<close> stands for float64.
\<close>

datatype 'n json =
    JNull
  | JBool bool
  | JNumber 'n
  | JString string
  | JArray "'n json list"
  | JObject "(string \<times> 'n json) list"

fun join :: "string \<Rightarrow> string list \<Rightarrow> string" where
  "join sep [] = []"
| "join sep [x] = x"
| "join sep (x # y # ys) = x @ sep @ join sep (y # ys)"

text \<open>Bytewise comparison of Go strings, used by \<open>fmt\<close> to print a map in key order.\<close>

fun string_le :: "string \<Rightarrow> string \<Rightarrow> bool" where
  "string_le [] ys = True"
| "string_le (x # xs) [] = False"
| "string_le (x # xs) (y # ys) =
     ((of_char x :: nat) < of_char y \<or> (x = y \<and> string_le xs ys))"

fun insert_entry :: "string \<times> string \<Rightarrow> (string \<times> string) list \<Rightarrow> (string \<times> string) list" where
  "insert_entry e [] = [e]"
| "insert_entry e (x # xs) =
     (if string_le (fst e) (fst x) then e # x # xs else x # insert_entry e xs)"

definition sort_entries :: "(string \<times> string) list \<Rightarrow> (string \<times> string) list" where
  "sort_entries es = foldr insert_entry es []"

text \<open>
  \<open>fmt.Sprintf("%v", val)\<close> on a decoded value. The rendering of a float64 is left to
  the parameter \<open>fmtf\<close>.
\<close>

fun Sprint_v :: "('n \<Rightarrow> string) \<Rightarrow> 'n json \<Rightarrow> string" where
  "Sprint_v fmtf JNull = ''<nil>''"
| "Sprint_v fmtf (JBool b) = (if b then ''true'' else ''false'')"
| "Sprint_v fmtf (JNumber n) = fmtf n"
| "Sprint_v fmtf (JString s) = s"
| "Sprint_v fmtf (JArray xs) = ''['' @ join '' '' (map (Sprint_v fmtf) xs) @ '']''"
| "Sprint_v fmtf (JObject kvs) =
     ''map['' @ join '' '' (map (\<lambda>e. fst e @ '':'' @ snd e)
        (sort_entries (map (\<lambda>kv. (fst kv, Sprint_v fmtf (snd kv))) kvs))) @ '']''"

section \<open>String helpers of Go's \<open>strings\<close> package\<close>

text \<open>
  \<open>strings.Fields\<close> splits around runs of white space as \<open>unicode.IsSpace\<close> defines it.
  \<open>spaceWidth s\<close> is the number of bytes of the white-space rune that \<open>s\<close> starts with in
  UTF-8, and 0 when it starts with none: the six ASCII spaces, U+0085, U+00A0, U+1680,
  U+2000 to U+200A, U+2028, U+2029, U+202F, U+205F and U+3000.
\<close>

definition asciiSpace :: "char list" where
  "asciiSpace = [CHR 0x09, CHR 0x0A, CHR 0x0B, CHR 0x0C, CHR 0x0D, CHR 0x20]"

definition spaceWidth :: "string \<Rightarrow> nat" where
  "spaceWidth s =
     (case s of
        [] \<Rightarrow> 0
      | c # cs \<Rightarrow>
          if c \<in> set asciiSpace then 1
          else if take 2 s = [CHR 0xC2, CHR 0x85] \<or> take 2 s = [CHR 0xC2, CHR 0xA0] then 2
          else if take 3 s = [CHR 0xE1, CHR 0x9A, CHR 0x80] then 3
          else if take 2 s = [CHR 0xE2, CHR 0x80] \<and> length s \<ge> 3 \<and>
                  ((0x80 \<le> (of_char (s ! 2) :: nat) \<and> (of_char (s ! 2) :: nat) \<le> 0x8A)
                   \<or> s ! 2 = CHR 0xA8 \<or> s ! 2 = CHR 0xA9 \<or> s ! 2 = CHR 0xAF) then 3
          else if take 3 s = [CHR 0xE2, CHR 0x81, CHR 0x9F] then 3
          else if take 3 s = [CHR 0xE3, CHR 0x80, CHR 0x80] then 3
          else 0)"

function splitFields :: "string \<Rightarrow> string \<Rightarrow> string list" where
  "splitFields cur [] = (if cur = [] then [] else [cur])"
| "splitFields cur (c # cs) =
     (if spaceWidth (c # cs) = 0 then splitFields (cur @ [c]) cs
      else (if cur = [] then [] else [cur]) @ splitFields [] (drop (spaceWidth (c # cs)) (c # cs)))"
  by pat_completeness auto
termination
  by (relation "measure (\<lambda>(cur, s). length s)") auto

definition Fields :: "string \<Rightarrow> string list" where
  "Fields s = splitFields [] s"

text \<open>
  \<open>strings.ReplaceAll s old new\<close> replaces the non-overlapping occurrences of \<open>old\<close>
  from left to right. Every call in this program passes a non-empty \<open>old\<close>
  (\<open>"{" + key + "}"\<close> and \<open>":"\<close>); for an empty \<open>old\<close>, where Go inserts \<open>new\<close> around
  every rune, the model leaves \<open>s\<close> as it is.
\<close>

function ReplaceAll :: "string \<Rightarrow> string \<Rightarrow> string \<Rightarrow> string" where
  "ReplaceAll [] old new = []"
| "ReplaceAll (c # cs) old new =
     (if old = [] then c # cs
      else if take (length old) (c # cs) = old
        then new @ ReplaceAll (drop (length old) (c # cs)) old new
      else c # ReplaceAll cs old new)"
  by pat_completeness auto
termination
  by (relation "measure (\<lambda>(s, old, new). length s)") auto

text \<open>\<open>strings.SplitN(s, ".", 2)\<close>: cut at the first dot, if there is one.\<close>

definition SplitN_dot2 :: "string \<Rightarrow> string list" where
  "SplitN_dot2 s =
     (if CHR ''.'' \<in> set s
      then [takeWhile (\<lambda>c. c \<noteq> CHR ''.'') s, tl (dropWhile (\<lambda>c. c \<noteq> CHR ''.'') s)]
      else [s])"

text \<open>\<open>fmt.Sprintf("%d", n)\<close>.\<close>

function decimal :: "nat \<Rightarrow> string" where
  "decimal n = (if n < 10 then [char_of (48 + n)] else decimal (n div 10) @ [char_of (48 + n mod 10)])"
  by pat_completeness auto
termination
  by (relation "measure id") auto

definition Sprint_d :: "int \<Rightarrow> string" where
  "Sprint_d i = (if i < 0 then ''-'' @ decimal (nat (- i)) else decimal (nat i))"

section \<open>The tool registry (pkg/toolreg)\<close>

record CommandDef =
  cd_Description :: string
  cd_Args :: string
  cd_Stdin :: bool
  cd_StdinParam :: string
  cd_Parameters :: "(string \<times> ParameterDef) list"

record ToolManifest =
  tm_Name :: string
  tm_Binary :: string
  tm_Description :: string
  tm_Commands :: "(string \<times> CommandDef) list"

text \<open>\<open>timeout\<close> is a \<open>time.Duration\<close>, a count of nanoseconds.\<close>

record Registry =
  tools :: "(string \<times> ToolManifest) list"
  timeout :: int

definition NewRegistry :: "int \<Rightarrow> Registry" where
  "NewRegistry t = \<lparr>tools = [], timeout = (if t = 0 then 30 * 1000000000 else t)\<rparr>"

definition Register :: "Registry \<Rightarrow> ToolManifest \<Rightarrow> Registry" where
  "Register r m = r\<lparr>tools := AList.update (tm_Name m) m (tools r)\<rparr>"

definition ToToolDefs :: "Registry \<Rightarrow> ToolDef list" where
  "ToToolDefs r =
     concat (map (\<lambda>(n, tool).
       map (\<lambda>(cmdName, cmd).
         \<lparr>td_Name = tm_Name tool @ ''.'' @ cmdName,
          td_Description = ''['' @ tm_Name tool @ ''] '' @ cd_Description cmd,
          td_Parameters = cd_Parameters cmd\<rparr>) (tm_Commands tool)) (tools r))"

definition buildCommandArgs ::
  "('n \<Rightarrow> string) \<Rightarrow> CommandDef \<Rightarrow> (string \<times> 'n json) list \<Rightarrow> string \<Rightarrow> string list" where
  "buildCommandArgs fmtf cmdDef args cmdName =
     (if cd_Args cmdDef \<noteq> [] then
        (let expanded = foldl (\<lambda>e (key, val).
               ReplaceAll e (''{'' @ key @ ''}'') (Sprint_v fmtf val)) (cd_Args cmdDef) args
         in [cmdName] @ filter (\<lambda>part. CHR ''{'' \<notin> set part) (Fields expanded))
      else
        (let stdinParam = (if cd_StdinParam cmdDef = [] then ''content'' else cd_StdinParam cmdDef)
         in [cmdName] @ concat (map (\<lambda>(key, val).
               if cd_Stdin cmdDef \<and> key = stdinParam then []
               else [''--'' @ key, Sprint_v fmtf val]) args)))"

text \<open>
  A subprocess as \<open>exec.Cmd\<close> sees it, and what \<open>cmd.Run()\<close> leaves behind: the error
  (non-zero exit, failure to start, or the kill when the timeout or the caller's
  context ends it) and the captured output streams.
\<close>

record Cmd =
  c_Path :: string
  c_Args :: "string list"
  c_Stdin :: "string option"
  c_Timeout :: "int option"

record ProcResult =
  p_err :: "string option"
  p_stdout :: string
  p_stderr :: string

text \<open>
  What lies outside the repository is a parameter: the provider behind the
  \<open>Provider\<close> interface, \<open>encoding/json\<close>, the operating system's processes and files, and
  the clock. \<open>'w\<close> is the state of that outside world; every call may change it.
  \<open>json_Unmarshal_map\<close> is \<open>json.Unmarshal\<close> into a \<open>map[string]any\<close>: the error text, or
  the entries in the order the next \<open>range\<close> over the map visits them.
\<close>

record ('w, 'n) env =
  provider_Chat :: "'w \<Rightarrow> ChatRequest \<Rightarrow> (string + ChatResponse) \<times> 'w"
  provider_Name :: string
  json_Unmarshal_map :: "'w \<Rightarrow> string \<Rightarrow> string + (string \<times> 'n json) list"
  json_Marshal_capture :: "string \<Rightarrow> int \<Rightarrow> string"
  fmt_float :: "'n \<Rightarrow> string"
  cmd_Run :: "'w \<Rightarrow> Cmd \<Rightarrow> ProcResult \<times> 'w"
  exec_LookPath :: "'w \<Rightarrow> string \<Rightarrow> bool"
  BuildSystemPrompt :: "'w \<Rightarrow> string \<Rightarrow> string"
  time_Now :: "'w \<Rightarrow> int"

definition Execute ::
  "('w, 'n) env \<Rightarrow> Registry \<Rightarrow> 'w \<Rightarrow> ToolCall \<Rightarrow> (string + string) \<times> 'w" where
  "Execute env r w toolCall =
     (case SplitN_dot2 (tc_Name toolCall) of
        [toolName, cmdName] \<Rightarrow>
          (case map_of (tools r) toolName of
             None \<Rightarrow> (Inl (''unknown tool: '' @ toolName), w)
           | Some tool \<Rightarrow>
               (case map_of (tm_Commands tool) cmdName of
                  None \<Rightarrow> (Inl (''unknown command: '' @ toolName @ ''.'' @ cmdName), w)
                | Some cmdDef \<Rightarrow>
                    (case json_Unmarshal_map env w (tc_Arguments toolCall) of
                       Inl err \<Rightarrow> (Inl (''parse tool arguments: '' @ err), w)
                     | Inr args \<Rightarrow>
                         (let cmdArgs = buildCommandArgs (fmt_float env) cmdDef args cmdName;
                              stdinParam = (if cd_StdinParam cmdDef = [] then ''content''
                                            else cd_StdinParam cmdDef);
                              stdin = (if cd_Stdin cmdDef
                                       then map_option (Sprint_v (fmt_float env)) (map_of args stdinParam)
                                       else None);
                              (res, w') = cmd_Run env w
                                 \<lparr>c_Path = tm_Binary tool, c_Args = cmdArgs, c_Stdin = stdin,
                                  c_Timeout = Some (timeout r)\<rparr>
                          in (case p_err res of
                                Some e \<Rightarrow>
                                  (Inl (toolName @ ''.'' @ cmdName @ '' failed: '' @
                                        (if p_stderr res = [] then e else p_stderr res)), w')
                              | None \<Rightarrow> (Inr (p_stdout res), w'))))))
      | _ \<Rightarrow> (Inl (''invalid tool name: '' @ tc_Name toolCall @ '' (expected tool.command)''), w))"

section \<open>The session manager (pkg/session/session.go)\<close>

record Session =
  s_Key :: string
  s_Messages :: "Message list"
  s_Summary :: string
  s_Created :: int
  s_Updated :: int

definition GetHistory :: "(string \<rightharpoonup> Session) \<Rightarrow> string \<Rightarrow> Message list" where
  "GetHistory m key = (case m key of None \<Rightarrow> [] | Some s \<Rightarrow> s_Messages s)"

definition GetSummary :: "(string \<rightharpoonup> Session) \<Rightarrow> string \<Rightarrow> string" where
  "GetSummary m key = (case m key of None \<Rightarrow> [] | Some s \<Rightarrow> s_Summary s)"

definition getOrCreate :: "int \<Rightarrow> (string \<rightharpoonup> Session) \<Rightarrow> string \<Rightarrow> Session" where
  "getOrCreate now m key =
     (case m key of
        None \<Rightarrow> \<lparr>s_Key = key, s_Messages = [], s_Summary = [], s_Created = now, s_Updated = now\<rparr>
      | Some s \<Rightarrow> s)"

definition AddMessage ::
  "int \<Rightarrow> (string \<rightharpoonup> Session) \<Rightarrow> string \<Rightarrow> Message \<Rightarrow> (string \<rightharpoonup> Session)" where
  "AddMessage now m key msg =
     (let s = getOrCreate now m key
      in m(key \<mapsto> s\<lparr>s_Messages := s_Messages s @ [msg], s_Updated := now\<rparr>))"

definition sanitize :: "string \<Rightarrow> string" where
  "sanitize key = ReplaceAll key '':'' ''_''"

section \<open>The agent loop (pkg/loop/loop.go)\<close>

record Config =
  MaxIterations :: int
  SessionKey :: string
  Verbose :: bool
  AutoCapture :: bool
  EvalBinary :: string

definition DefaultConfig :: Config where
  "DefaultConfig = \<lparr>MaxIterations = 20, SessionKey = ''main'', Verbose = False,
     AutoCapture = True, EvalBinary = ''token-eval''\<rparr>"

text \<open>
  The provider, the context builder's file reads and the clock are in \<open>env\<close>; the session
  manager's map is in the run state below.
\<close>

record AgentLoop =
  al_registry :: Registry
  al_cfg :: Config

text \<open>
  The state that \<open>Run\<close> threads through: the outside world, the session manager's map,
  the local variables \<open>messages\<close> and \<open>finalContent\<close>, and two logs kept for the
  theorems' sake: every call of the provider with what it returned, and every file that
  \<open>Save\<close> set out to write.
\<close>

record 'w run_state =
  world :: 'w
  sessions :: "string \<rightharpoonup> Session"
  messages :: "Message list"
  finalContent :: string
  chat_log :: "(ChatRequest \<times> (string + ChatResponse)) list"
  saved :: "(string \<times> Session) list"

text \<open>\<open>Save\<close> snapshots the session and writes it to \<open>sanitize(key) + ".json"\<close>.\<close>

definition Save :: "string \<Rightarrow> 'w run_state \<Rightarrow> 'w run_state" where
  "Save key st =
     (case sessions st key of
        None \<Rightarrow> st
      | Some s \<Rightarrow> st\<lparr>saved := saved st @ [(sanitize key @ ''.json'', s)]\<rparr>)"

definition truncate_str :: "string \<Rightarrow> int \<Rightarrow> string" where
  "truncate_str s mx = (if int (length s) \<le> mx then s else take (nat mx) s @ ''...'')"

text \<open>\<open>provider.Message{Role: role, Content: content}\<close>.\<close>

definition textMessage :: "string \<Rightarrow> string \<Rightarrow> Message" where
  "textMessage role content =
     \<lparr>m_Role = role, m_Content = content, m_ToolCalls = [], m_ToolCallID = []\<rparr>"

definition BuildMessages ::
  "('w, 'n) env \<Rightarrow> 'w \<Rightarrow> Message list \<Rightarrow> string \<Rightarrow> string \<Rightarrow> Message list" where
  "BuildMessages env w history summary userMessage =
     [textMessage ''system'' (BuildSystemPrompt env w summary)]
     @ history
     @ [textMessage ''user'' userMessage]"

text \<open>
  \<open>captureEval\<close> runs the recorder and discards its outcome; only the world can change.
\<close>

definition captureEval ::
  "('w, 'n) env \<Rightarrow> AgentLoop \<Rightarrow> ChatResponse \<Rightarrow> string \<Rightarrow> int \<Rightarrow> 'w \<Rightarrow> 'w" where
  "captureEval env al resp intent iteration w =
     (let binary = EvalBinary (al_cfg al)
      in if binary = [] then w
         else if \<not> exec_LookPath env w binary then w
         else snd (cmd_Run env w
           \<lparr>c_Path = binary,
            c_Args = [''record'',
              ''--provider'', provider_Name env,
              ''--prompt-tokens'', Sprint_d (u_PromptTokens (r_Usage resp)),
              ''--completion-tokens'', Sprint_d (u_CompletionTokens (r_Usage resp)),
              ''--intent'', ''orchestrator:'' @ truncate_str intent 50 @ '':iter'' @ Sprint_d iteration],
            c_Stdin = Some (json_Marshal_capture env (SessionKey (al_cfg al)) iteration),
            c_Timeout = None\<rparr>))"

text \<open>
  The inner loop of \<open>Run\<close>, the EXECUTING phase: one tool call after the other, each
  outcome appended as a Tool-role message to \<open>messages\<close> and to the session. The
  \<open>log.Printf\<close> calls under \<open>Verbose\<close> touch nothing the model holds and are left out.
\<close>

definition toolMessage :: "ToolCall \<Rightarrow> string + string \<Rightarrow> Message" where
  "toolMessage tc res =
     \<lparr>m_Role = ''tool'',
      m_Content = (case res of Inl err \<Rightarrow> ''Error: '' @ err | Inr out \<Rightarrow> out),
      m_ToolCalls = [],
      m_ToolCallID = tc_ID tc\<rparr>"

fun executeToolCalls ::
  "('w, 'n) env \<Rightarrow> AgentLoop \<Rightarrow> ToolCall list \<Rightarrow> 'w run_state \<Rightarrow> 'w run_state" where
  "executeToolCalls env al [] st = st"
| "executeToolCalls env al (tc # tcs) st =
     (let (res, w') = Execute env (al_registry al) (world st) tc;
          toolMsg = toolMessage tc res
      in executeToolCalls env al tcs
           (st\<lparr>world := w',
               messages := messages st @ [toolMsg],
               sessions := AddMessage (time_Now env w') (sessions st) (SessionKey (al_cfg al)) toolMsg\<rparr>))"

text \<open>
  \<open>provider.ChatRequest{Messages: messages, Tools: toolDefs}\<close> and the assistant
  message that carries a response's tool calls.
\<close>

definition chatRequest :: "Message list \<Rightarrow> ToolDef list \<Rightarrow> ChatRequest" where
  "chatRequest msgs toolDefs =
     \<lparr>rq_Model = [], rq_Messages = msgs, rq_Tools = toolDefs, rq_MaxTokens = 0\<rparr>"

definition assistantMessage :: "ChatResponse \<Rightarrow> Message" where
  "assistantMessage resp =
     \<lparr>m_Role = ''assistant'', m_Content = r_Content resp,
      m_ToolCalls = r_ToolCalls resp, m_ToolCallID = []\<rparr>"

text \<open>One pass through the body of the \<open>for\<close> loop, and how it leaves the body.\<close>

datatype 'w body_exit =
    ReturnErr string "'w run_state"
  | Break "'w run_state"
  | NextIter "'w run_state"


definition loop_body ::
  "('w, 'n) env \<Rightarrow> AgentLoop \<Rightarrow> string \<Rightarrow> ToolDef list \<Rightarrow> int \<Rightarrow> 'w run_state \<Rightarrow> 'w body_exit" where
  "loop_body env al userMessage toolDefs i st =
     (let req = chatRequest (messages st) toolDefs;
          (res, w1) = provider_Chat env (world st) req;
          st1 = st\<lparr>world := w1, chat_log := chat_log st @ [(req, res)]\<rparr>
      in case res of
           Inl err \<Rightarrow>
             ReturnErr (''LLM call failed (iteration '' @ Sprint_d (i + 1) @ ''): '' @ err) st1
         | Inr resp \<Rightarrow>
             (let st2 = (if AutoCapture (al_cfg al)
                         then st1\<lparr>world := captureEval env al resp userMessage (i + 1) (world st1)\<rparr>
                         else st1)
              in if r_ToolCalls resp = [] then Break (st2\<lparr>finalContent := r_Content resp\<rparr>)
                 else
                   (let assistantMsg = assistantMessage resp;
                        st3 = st2\<lparr>messages := messages st2 @ [assistantMsg],
                                 sessions := AddMessage (time_Now env (world st2)) (sessions st2)
                                               (SessionKey (al_cfg al)) assistantMsg\<rparr>;
                        st4 = executeToolCalls env al (r_ToolCalls resp) st3
                    in NextIter
                         (if i = MaxIterations (al_cfg al) - 1
                          then st4\<lparr>finalContent :=
                                 (if r_Content resp = [] then ''[max iterations reached]''
                                  else r_Content resp)\<rparr>
                          else st4))))"

text \<open>
  The state in which the EXECUTING phase of a pass starts: the provider has answered
  with \<open>resp\<close> and left the world \<open>w1\<close>, the call is captured, and the assistant message
  is appended to the transcript and to the session.
\<close>

definition executing_start ::
  "('w, 'n) env \<Rightarrow> AgentLoop \<Rightarrow> string \<Rightarrow> ToolDef list \<Rightarrow> int \<Rightarrow> ChatResponse \<Rightarrow> 'w
     \<Rightarrow> 'w run_state \<Rightarrow> 'w run_state" where
  "executing_start env al userMessage toolDefs i resp w1 st =
     (let st1 = st\<lparr>world := w1,
                    chat_log := chat_log st @ [(chatRequest (messages st) toolDefs, Inr resp)]\<rparr>;
          st2 = (if AutoCapture (al_cfg al)
                 then st1\<lparr>world := captureEval env al resp userMessage (i + 1) (world st1)\<rparr>
                 else st1)
      in st2\<lparr>messages := messages st2 @ [assistantMessage resp],
             sessions := AddMessage (time_Now env (world st2)) (sessions st2)
                           (SessionKey (al_cfg al)) (assistantMessage resp)\<rparr>)"

text \<open>
  The \<open>for\<close> loop from \<open>i\<close> on. \<open>Some err\<close> is the early \<open>return "", err\<close>; \<open>None\<close> is the
  loop left by \<open>break\<close> or by its condition, with \<open>finalContent\<close> in the state.
\<close>

function tool_loop ::
  "('w, 'n) env \<Rightarrow> AgentLoop \<Rightarrow> string \<Rightarrow> ToolDef list \<Rightarrow> int \<Rightarrow> 'w run_state
     \<Rightarrow> string option \<times> 'w run_state" where
  "tool_loop env al userMessage toolDefs i st =
     (if i < MaxIterations (al_cfg al) then
        (case loop_body env al userMessage toolDefs i st of
           ReturnErr err st' \<Rightarrow> (Some err, st')
         | Break st' \<Rightarrow> (None, st')
         | NextIter st' \<Rightarrow> tool_loop env al userMessage toolDefs (i + 1) st')
      else (None, st))"
  by pat_completeness auto
termination
  by (relation "measure (\<lambda>(env, al, userMessage, toolDefs, i, st). nat (MaxIterations (al_cfg al) - i))") auto

declare tool_loop.simps [simp del]

definition fallbackText :: string where
  "fallbackText = ''I'' @ [CHR 0x27] @ ''ve completed processing but have no response to give.''"

text \<open>
  \<open>Run\<close> in three parts: the lines before the loop (history and summary read, the
  messages built, the user message stored in the session, \<open>finalContent\<close> empty), the
  loop, and the lines after it (the fallback text, the final assistant message stored,
  \<open>Save\<close>). \<open>Inl err\<close> is \<open>return "", err\<close>, \<open>Inr text\<close> is
  \<open>return finalContent, nil\<close>; the state returned with it is the one the call leaves
  behind. \<open>Run\<close> drops the error of \<open>Save\<close>.
\<close>

definition run_prologue ::
  "('w, 'n) env \<Rightarrow> AgentLoop \<Rightarrow> string \<Rightarrow> 'w run_state \<Rightarrow> 'w run_state" where
  "run_prologue env al userMessage st0 =
     (let key = SessionKey (al_cfg al);
          history = GetHistory (sessions st0) key;
          summary = GetSummary (sessions st0) key;
          msgs = BuildMessages env (world st0) history summary userMessage
      in st0\<lparr>messages := msgs, finalContent := [],
             sessions := AddMessage (time_Now env (world st0)) (sessions st0) key
               (textMessage ''user'' userMessage)\<rparr>)"

definition run_epilogue ::
  "('w, 'n) env \<Rightarrow> AgentLoop \<Rightarrow> 'w run_state \<Rightarrow> (string + string) \<times> 'w run_state" where
  "run_epilogue env al st =
     (let key = SessionKey (al_cfg al);
          fc = (if finalContent st = [] then fallbackText else finalContent st);
          st' = st\<lparr>finalContent := fc,
                  sessions := AddMessage (time_Now env (world st)) (sessions st) key
                    (textMessage ''assistant'' fc)\<rparr>
      in (Inr fc, Save key st'))"

definition Run ::
  "('w, 'n) env \<Rightarrow> AgentLoop \<Rightarrow> string \<Rightarrow> 'w run_state \<Rightarrow> (string + string) \<times> 'w run_state" where
  "Run env al userMessage st0 =
     (case tool_loop env al userMessage (ToToolDefs (al_registry al)) 0
             (run_prologue env al userMessage st0) of
        (Some err, st) \<Rightarrow> (Inl err, st)
      | (None, st) \<Rightarrow> run_epilogue env al st)"


section \<open>The provider adapters (pkg/provider)\<close>

text \<open>
  The network and \<open>encoding/json\<close> are parameters. A round trip is
  \<open>http.DefaultClient.Do\<close> followed by \<open>io.ReadAll\<close> of the body; \<open>'h\<close> is the state of the
  network. The adapters thread a \<open>net_state\<close>: that state and the log of the requests
  handed to \<open>Do\<close>.
\<close>

record HttpRequest =
  hq_Method :: string
  hq_URL :: string
  hq_Header :: "(string \<times> string) list"
  hq_Body :: string

datatype HttpResult =
    DoFailed string
  | ReadFailed string
  | Responded int string

record 'h net_state =
  net_world :: 'h
  net_log :: "HttpRequest list"

subsection \<open>Wire types of the content-block protocol (Anthropic)\<close>

record 'n contentBlock =
  cb_Type :: string
  cb_Text :: string
  cb_ID :: string
  cb_Name :: string
  cb_Input :: "'n json"
  cb_ToolUseID :: string
  cb_Content :: string

text \<open>\<open>anthropicMessage.Content\<close> is a string or a list of content blocks.\<close>

datatype 'n messageContent =
    ContentText string
  | ContentBlocks "'n contentBlock list"

record 'n anthropicMessage =
  am_Role :: string
  am_Content :: "'n messageContent"

record anthropicTool =
  at_Name :: string
  at_Description :: string
  at_InputSchema :: "(string \<times> ParameterDef) list"

record 'n anthropicRequest =
  aq_Model :: string
  aq_MaxTokens :: int
  aq_System :: string
  aq_Messages :: "'n anthropicMessage list"
  aq_Tools :: "anthropicTool list"

record apiError =
  ae_Type :: string
  ae_Message :: string

record 'n anthropicResponse =
  ar_Content :: "'n contentBlock list"
  ar_InputTokens :: int
  ar_OutputTokens :: int
  ar_StopReason :: string
  ar_Error :: "apiError option"
  ar_Type :: string

subsection \<open>Wire types of the flat-message protocol (OpenAI)\<close>

record openaiToolCall =
  ot_ID :: string
  ot_Type :: string
  ot_Function_Name :: string
  ot_Function_Arguments :: string

record openaiMessage =
  om_Role :: string
  om_Content :: string
  om_ToolCalls :: "openaiToolCall list"
  om_ToolCallID :: string

record openaiTool =
  oo_Type :: string
  oo_Function_Name :: string
  oo_Function_Description :: string
  oo_Function_Parameters :: "(string \<times> ParameterDef) list"

record openaiRequest =
  oq_Model :: string
  oq_Messages :: "openaiMessage list"
  oq_Tools :: "openaiTool list"

record openaiChoice =
  oc_Message_Content :: string
  oc_Message_ToolCalls :: "openaiToolCall list"

record openaiResponse =
  or_Choices :: "openaiChoice list"
  or_PromptTokens :: int
  or_CompletionTokens :: int
  or_Error :: "apiError option"

text \<open>
  \<open>json.Unmarshal\<close> of a text into a nil \<open>any\<close>. It scans the whole text first: a text that
  is not valid JSON is a syntax error and nothing is stored. A valid text is decoded and
  a value is stored; the call may still report an error (a number outside the range of
  float64), having decoded as far as it could.
\<close>

datatype 'n UnmarshalResult =
    SyntaxError string
  | TypeError string "'n json"
  | Decoded "'n json"

text \<open>What the variable holds after the call, nil before it.\<close>

fun stored_value :: "'n UnmarshalResult \<Rightarrow> 'n json" where
  "stored_value (SyntaxError err) = JNull"
| "stored_value (TypeError err v) = v"
| "stored_value (Decoded v) = v"

record ('h, 'n) net_env =
  os_Getenv :: "string \<Rightarrow> string"
  json_Unmarshal_any :: "string \<Rightarrow> 'n UnmarshalResult"
  json_Marshal_any :: "'n json \<Rightarrow> string + string"
  json_Marshal_anthropic :: "'n anthropicRequest \<Rightarrow> string + string"
  json_Unmarshal_anthropic :: "string \<Rightarrow> string + 'n anthropicResponse"
  json_Marshal_openai :: "openaiRequest \<Rightarrow> string + string"
  json_Unmarshal_openai :: "string \<Rightarrow> string + openaiResponse"
  http_NewRequest_error :: "string \<Rightarrow> string option"
  http_Do :: "'h \<Rightarrow> HttpRequest \<Rightarrow> HttpResult \<times> 'h"

text \<open>
  Sending a request: \<open>Do\<close>, then \<open>ReadAll\<close>. The request is logged and the network moves
  on. The result is what the adapter goes on with: an error text, or status and body.
\<close>

definition roundTrip ::
  "('h, 'n) net_env \<Rightarrow> HttpRequest \<Rightarrow> 'h net_state \<Rightarrow> HttpResult \<times> 'h net_state" where
  "roundTrip env httpReq ns =
     (let (res, h') = http_Do env (net_world ns) httpReq
      in (res, \<lparr>net_world = h', net_log = net_log ns @ [httpReq]\<rparr>))"

subsection \<open>Variant A: Anthropic\<close>

record Anthropic =
  a_apiKey :: string
  a_model :: string

definition anthropicAPIURL :: string where
  "anthropicAPIURL = ''https://api.anthropic.com/v1/messages''"

definition NewAnthropic :: "('h, 'n) net_env \<Rightarrow> string \<Rightarrow> string \<Rightarrow> Anthropic" where
  "NewAnthropic env apiKey model =
     \<lparr>a_apiKey = (if apiKey = [] then os_Getenv env ''ANTHROPIC_API_KEY'' else apiKey),
      a_model = (if model = [] then ''claude-sonnet-4-20250514'' else model)\<rparr>"

text \<open>
  The tool-use block of one tool call. \<open>json.Unmarshal\<close> into \<open>var input any\<close> with its
  error dropped: the block takes whatever the call left in \<open>input\<close>.
\<close>

definition toolUseBlock :: "('h, 'n) net_env \<Rightarrow> ToolCall \<Rightarrow> 'n contentBlock" where
  "toolUseBlock env tc =
     \<lparr>cb_Type = ''tool_use'', cb_Text = [], cb_ID = tc_ID tc, cb_Name = tc_Name tc,
      cb_Input = stored_value (json_Unmarshal_any env (tc_Arguments tc)),
      cb_ToolUseID = [], cb_Content = []\<rparr>"

definition textBlock :: "string \<Rightarrow> 'n contentBlock" where
  "textBlock t =
     \<lparr>cb_Type = ''text'', cb_Text = t, cb_ID = [], cb_Name = [], cb_Input = JNull,
      cb_ToolUseID = [], cb_Content = []\<rparr>"

definition toolResultBlock :: "Message \<Rightarrow> 'n contentBlock" where
  "toolResultBlock m =
     \<lparr>cb_Type = ''tool_result'', cb_Text = [], cb_ID = [], cb_Name = [], cb_Input = JNull,
      cb_ToolUseID = m_ToolCallID m, cb_Content = m_Content m\<rparr>"

text \<open>
  The loop over \<open>req.Messages\<close>: the pair of \<open>system\<close> and \<open>msgs\<close> after one more message.
  A role other than the four leaves both as they are.
\<close>

definition anthropic_convert_step ::
  "('h, 'n) net_env \<Rightarrow> string \<times> 'n anthropicMessage list \<Rightarrow> Message
     \<Rightarrow> string \<times> 'n anthropicMessage list" where
  "anthropic_convert_step env acc m =
     (let system = fst acc; msgs = snd acc
      in if m_Role m = ''system'' then (m_Content m, msgs)
         else if m_Role m = ''user''
           then (system, msgs @ [\<lparr>am_Role = ''user'', am_Content = ContentText (m_Content m)\<rparr>])
         else if m_Role m = ''assistant'' then
           (if m_ToolCalls m \<noteq> [] then
              (system, msgs @ [\<lparr>am_Role = ''assistant'',
                 am_Content = ContentBlocks
                   ((if m_Content m \<noteq> [] then [textBlock (m_Content m)] else [])
                    @ map (toolUseBlock env) (m_ToolCalls m))\<rparr>])
            else (system, msgs @ [\<lparr>am_Role = ''assistant'', am_Content = ContentText (m_Content m)\<rparr>]))
         else if m_Role m = ''tool''
           then (system, msgs @ [\<lparr>am_Role = ''user'', am_Content = ContentBlocks [toolResultBlock m]\<rparr>])
         else (system, msgs))"

definition anthropic_request :: "('h, 'n) net_env \<Rightarrow> Anthropic \<Rightarrow> ChatRequest \<Rightarrow> 'n anthropicRequest" where
  "anthropic_request env a req =
     (let model = (if rq_Model req = [] then a_model a else rq_Model req);
          maxTokens = (if rq_MaxTokens req = 0 then 4096 else rq_MaxTokens req);
          (system, msgs) = foldl (anthropic_convert_step env) ([], []) (rq_Messages req);
          tools = map (\<lambda>t. \<lparr>at_Name = td_Name t, at_Description = td_Description t,
                             at_InputSchema = td_Parameters t\<rparr>) (rq_Tools req)
      in \<lparr>aq_Model = model, aq_MaxTokens = maxTokens, aq_System = system,
          aq_Messages = msgs, aq_Tools = tools\<rparr>)"

definition anthropic_http_request :: "Anthropic \<Rightarrow> string \<Rightarrow> HttpRequest" where
  "anthropic_http_request a body =
     \<lparr>hq_Method = ''POST'', hq_URL = anthropicAPIURL,
      hq_Header = [(''Content-Type'', ''application/json''), (''x-api-key'', a_apiKey a),
                   (''anthropic-version'', ''2023-06-01'')],
      hq_Body = body\<rparr>"

text \<open>The loop over the content blocks of the response.\<close>

definition anthropic_block_step ::
  "('h, 'n) net_env \<Rightarrow> ChatResponse \<Rightarrow> 'n contentBlock \<Rightarrow> ChatResponse" where
  "anthropic_block_step env result block =
     (if cb_Type block = ''text'' then result\<lparr>r_Content := r_Content result @ cb_Text block\<rparr>
      else if cb_Type block = ''tool_use'' then
        result\<lparr>r_ToolCalls := r_ToolCalls result @
          [\<lparr>tc_ID = cb_ID block, tc_Name = cb_Name block,
            tc_Arguments = (case json_Marshal_any env (cb_Input block) of
                              Inl err \<Rightarrow> [] | Inr args \<Rightarrow> args)\<rparr>]\<rparr>
      else result)"

definition anthropic_parse :: "('h, 'n) net_env \<Rightarrow> 'n anthropicResponse \<Rightarrow> ChatResponse" where
  "anthropic_parse env apiResp =
     foldl (anthropic_block_step env)
       \<lparr>r_Content = [], r_ToolCalls = [],
        r_Usage = \<lparr>u_PromptTokens = ar_InputTokens apiResp,
                   u_CompletionTokens = ar_OutputTokens apiResp\<rparr>\<rparr>
       (ar_Content apiResp)"

definition Anthropic_Chat ::
  "('h, 'n) net_env \<Rightarrow> Anthropic \<Rightarrow> ChatRequest \<Rightarrow> 'h net_state
     \<Rightarrow> (string + ChatResponse) \<times> 'h net_state" where
  "Anthropic_Chat env a req ns =
     (if a_apiKey a = [] then (Inl ''anthropic: ANTHROPIC_API_KEY not set'', ns)
      else
        (case json_Marshal_anthropic env (anthropic_request env a req) of
           Inl err \<Rightarrow> (Inl (''anthropic: marshal request: '' @ err), ns)
         | Inr body \<Rightarrow>
             (case http_NewRequest_error env anthropicAPIURL of
                Some err \<Rightarrow> (Inl (''anthropic: create request: '' @ err), ns)
              | None \<Rightarrow>
                  (let (res, ns') = roundTrip env (anthropic_http_request a body) ns
                   in case res of
                        DoFailed err \<Rightarrow> (Inl (''anthropic: request failed: '' @ err), ns')
                      | ReadFailed err \<Rightarrow> (Inl (''anthropic: read response: '' @ err), ns')
                      | Responded status respBody \<Rightarrow>
                          (if status \<noteq> 200
                           then (Inl (''anthropic: HTTP '' @ Sprint_d status @ '': '' @ respBody), ns')
                           else
                             (case json_Unmarshal_anthropic env respBody of
                                Inl err \<Rightarrow> (Inl (''anthropic: unmarshal response: '' @ err), ns')
                              | Inr apiResp \<Rightarrow>
                                  (case (if ar_Type apiResp = ''error'' then ar_Error apiResp else None) of
                                     Some e \<Rightarrow>
                                       (Inl (''anthropic: API error: '' @ ae_Type e @ '': '' @ ae_Message e), ns')
                                   | None \<Rightarrow> (Inr (anthropic_parse env apiResp), ns'))))))))"


subsection \<open>Variant B: OpenAI and compatible back ends\<close>

record OpenAI =
  o_apiKey :: string
  o_model :: string
  o_baseURL :: string

definition openaiDefaultURL :: string where
  "openaiDefaultURL = ''https://api.openai.com/v1/chat/completions''"

text \<open>\<open>NewOpenAI\<close> with its options applied in order; \<open>WithBaseURL\<close> is the only option.\<close>

definition WithBaseURL :: "string \<Rightarrow> OpenAI \<Rightarrow> OpenAI" where
  "WithBaseURL url o' = o'\<lparr>o_baseURL := url\<rparr>"

definition NewOpenAI ::
  "('h, 'n) net_env \<Rightarrow> string \<Rightarrow> string \<Rightarrow> (OpenAI \<Rightarrow> OpenAI) list \<Rightarrow> OpenAI" where
  "NewOpenAI env apiKey model opts =
     foldl (\<lambda>o' opt. opt o')
       \<lparr>o_apiKey = (if apiKey = [] then os_Getenv env ''OPENAI_API_KEY'' else apiKey),
        o_model = (if model = [] then ''gpt-4o'' else model),
        o_baseURL = openaiDefaultURL\<rparr> opts"

definition openai_tool_call :: "ToolCall \<Rightarrow> openaiToolCall" where
  "openai_tool_call tc =
     \<lparr>ot_ID = tc_ID tc, ot_Type = ''function'', ot_Function_Name = tc_Name tc,
      ot_Function_Arguments = tc_Arguments tc\<rparr>"

definition openai_convert_step :: "openaiMessage list \<Rightarrow> Message \<Rightarrow> openaiMessage list" where
  "openai_convert_step msgs m =
     (if m_Role m = ''system'' \<or> m_Role m = ''user''
        then msgs @ [\<lparr>om_Role = m_Role m, om_Content = m_Content m, om_ToolCalls = [], om_ToolCallID = []\<rparr>]
      else if m_Role m = ''assistant''
        then msgs @ [\<lparr>om_Role = ''assistant'', om_Content = m_Content m,
                      om_ToolCalls = map openai_tool_call (m_ToolCalls m), om_ToolCallID = []\<rparr>]
      else if m_Role m = ''tool''
        then msgs @ [\<lparr>om_Role = ''tool'', om_Content = m_Content m, om_ToolCalls = [],
                      om_ToolCallID = m_ToolCallID m\<rparr>]
      else msgs)"

definition openai_request :: "OpenAI \<Rightarrow> ChatRequest \<Rightarrow> openaiRequest" where
  "openai_request o' req =
     \<lparr>oq_Model = (if rq_Model req = [] then o_model o' else rq_Model req),
      oq_Messages = foldl openai_convert_step [] (rq_Messages req),
      oq_Tools = map (\<lambda>t. \<lparr>oo_Type = ''function'', oo_Function_Name = td_Name t,
                            oo_Function_Description = td_Description t,
                            oo_Function_Parameters = td_Parameters t\<rparr>) (rq_Tools req)\<rparr>"

definition openai_http_request :: "OpenAI \<Rightarrow> string \<Rightarrow> HttpRequest" where
  "openai_http_request o' body =
     \<lparr>hq_Method = ''POST'', hq_URL = o_baseURL o',
      hq_Header = [(''Content-Type'', ''application/json''),
                   (''Authorization'', ''Bearer '' @ o_apiKey o')],
      hq_Body = body\<rparr>"

definition chat_tool_call :: "openaiToolCall \<Rightarrow> ToolCall" where
  "chat_tool_call tc =
     \<lparr>tc_ID = ot_ID tc, tc_Name = ot_Function_Name tc, tc_Arguments = ot_Function_Arguments tc\<rparr>"

text \<open>What \<open>Chat\<close> returns for a decoded response without an error object.\<close>

definition openai_parse :: "openaiResponse \<Rightarrow> ChatResponse" where
  "openai_parse apiResp =
     (case or_Choices apiResp of
        [] \<Rightarrow> \<lparr>r_Content = [], r_ToolCalls = [],
               r_Usage = \<lparr>u_PromptTokens = 0, u_CompletionTokens = 0\<rparr>\<rparr>
      | choice # others \<Rightarrow>
          \<lparr>r_Content = oc_Message_Content choice,
           r_ToolCalls = map chat_tool_call (oc_Message_ToolCalls choice),
           r_Usage = \<lparr>u_PromptTokens = or_PromptTokens apiResp,
                      u_CompletionTokens = or_CompletionTokens apiResp\<rparr>\<rparr>)"

definition OpenAI_Chat ::
  "('h, 'n) net_env \<Rightarrow> OpenAI \<Rightarrow> ChatRequest \<Rightarrow> 'h net_state
     \<Rightarrow> (string + ChatResponse) \<times> 'h net_state" where
  "OpenAI_Chat env o' req ns =
     (if o_apiKey o' = [] then (Inl ''openai: API key not set (OPENAI_API_KEY)'', ns)
      else
        (case json_Marshal_openai env (openai_request o' req) of
           Inl err \<Rightarrow> (Inl (''openai: marshal request: '' @ err), ns)
         | Inr body \<Rightarrow>
             (case http_NewRequest_error env (o_baseURL o') of
                Some err \<Rightarrow> (Inl (''openai: create request: '' @ err), ns)
              | None \<Rightarrow>
                  (let (res, ns') = roundTrip env (openai_http_request o' body) ns
                   in case res of
                        DoFailed err \<Rightarrow> (Inl (''openai: request failed: '' @ err), ns')
                      | ReadFailed err \<Rightarrow> (Inl (''openai: read response: '' @ err), ns')
                      | Responded status respBody \<Rightarrow>
                          (if status \<noteq> 200
                           then (Inl (''openai: HTTP '' @ Sprint_d status @ '': '' @ respBody), ns')
                           else
                             (case json_Unmarshal_openai env respBody of
                                Inl err \<Rightarrow> (Inl (''openai: unmarshal response: '' @ err), ns')
                              | Inr apiResp \<Rightarrow>
                                  (case or_Error apiResp of
                                     Some e \<Rightarrow>
                                       (Inl (''openai: API error: '' @ ae_Type e @ '': '' @ ae_Message e), ns')
                                   | None \<Rightarrow> (Inr (openai_parse apiResp), ns'))))))))"

subsection \<open>The two variants behind the \<open>Provider\<close> interface\<close>

datatype ProviderVariant =
    VariantA Anthropic
  | VariantB OpenAI

fun credential :: "ProviderVariant \<Rightarrow> string" where
  "credential (VariantA a) = a_apiKey a"
| "credential (VariantB b) = o_apiKey b"

fun Name :: "ProviderVariant \<Rightarrow> string" where
  "Name (VariantA a) = ''anthropic''"
| "Name (VariantB b) = ''openai''"

fun Chat ::
  "('h, 'n) net_env \<Rightarrow> ProviderVariant \<Rightarrow> ChatRequest \<Rightarrow> 'h net_state
     \<Rightarrow> (string + ChatResponse) \<times> 'h net_state" where
  "Chat env (VariantA a) req ns = Anthropic_Chat env a req ns"
| "Chat env (VariantB b) req ns = OpenAI_Chat env b req ns"

text \<open>
  A network for the examples: it answers every request with status 200 and the body it
  was configured with; the decoders return the responses they were configured with.
\<close>

definition test_net ::
  "string \<Rightarrow> nat anthropicResponse \<Rightarrow> openaiResponse \<Rightarrow> (nat, nat) net_env" where
  "test_net respBody aresp oresp =
     \<lparr>os_Getenv = (\<lambda>name. []),
      json_Unmarshal_any = (\<lambda>s. if s = ''{}'' then Decoded (JObject [])
                                 else SyntaxError ''invalid character''),
      json_Marshal_any = (\<lambda>v. Inr (case v of JNull \<Rightarrow> ''null'' | _ \<Rightarrow> ''{}'')),
      json_Marshal_anthropic = (\<lambda>r. Inr ''request''),
      json_Unmarshal_anthropic = (\<lambda>s. Inr aresp),
      json_Marshal_openai = (\<lambda>r. Inr ''request''),
      json_Unmarshal_openai = (\<lambda>s. Inr oresp),
      http_NewRequest_error = (\<lambda>url. None),
      http_Do = (\<lambda>h r. (Responded 200 respBody, Suc h))\<rparr>"

definition empty_net :: "nat net_state" where
  "empty_net = \<lparr>net_world = 0, net_log = []\<rparr>"

definition no_blocks :: "nat anthropicResponse" where
  "no_blocks =
     \<lparr>ar_Content = [], ar_InputTokens = 7, ar_OutputTokens = 0, ar_StopReason = ''end_turn'',
      ar_Error = None, ar_Type = ''message''\<rparr>"

definition no_choices :: openaiResponse where
  "no_choices = \<lparr>or_Choices = [], or_PromptTokens = 7, or_CompletionTokens = 0, or_Error = None\<rparr>"

definition test_openai :: OpenAI where
  "test_openai = \<lparr>o_apiKey = ''test-key'', o_model = ''gpt-4o'', o_baseURL = openaiDefaultURL\<rparr>"



section \<open>A scripted provider and an echo tool, as in the tests of the loop\<close>

text \<open>
  The provider of the tests answers its \<open>n\<close>-th call from a script and, past the end of
  the script, with a default response; the world is the number of calls so far. The
  registry holds the tests' tool \<open>echo\<close> with the command \<open>run\<close> and the template
  \<open>{text}\<close>; the process prints its arguments. The decoder knows the argument text
  \<open>{}\<close> and rejects everything else.
\<close>

definition echo_manifest :: ToolManifest where
  "echo_manifest =
     \<lparr>tm_Name = ''echo'', tm_Binary = ''echo'', tm_Description = [],
      tm_Commands = [(''run'',
        \<lparr>cd_Description = ''echoes input'', cd_Args = ''{text}'', cd_Stdin = False,
         cd_StdinParam = [], cd_Parameters = []\<rparr>)]\<rparr>"

definition mock_env :: "(string + ChatResponse) list \<Rightarrow> ChatResponse \<Rightarrow> (nat, nat) env" where
  "mock_env script dflt =
     \<lparr>provider_Chat = (\<lambda>w req. (if w < length script then script ! w else Inr dflt, Suc w)),
      provider_Name = ''mock'',
      json_Unmarshal_map = (\<lambda>w s. if s = ''{}'' then Inr [] else Inl ''invalid character''),
      json_Marshal_capture = (\<lambda>key i. []),
      fmt_float = decimal,
      cmd_Run = (\<lambda>w c. (\<lparr>p_err = None, p_stdout = join '' '' (c_Args c) @ [CHR 0x0A],
                              p_stderr = []\<rparr>, w)),
      exec_LookPath = (\<lambda>w binary. False),
      BuildSystemPrompt = (\<lambda>w summary. ''# teeny-orchestrator''),
      time_Now = (\<lambda>w. int w)\<rparr>"

definition test_loop :: "int \<Rightarrow> AgentLoop" where
  "test_loop n =
     \<lparr>al_registry = Register (NewRegistry (30 * 1000000000)) echo_manifest,
      al_cfg = DefaultConfig\<lparr>MaxIterations := n, AutoCapture := False\<rparr>\<rparr>"

definition empty_state :: "nat run_state" where
  "empty_state =
     \<lparr>world = 0, sessions = Map.empty, messages = [], finalContent = [], chat_log = [], saved = []\<rparr>"

definition text_response :: "string \<Rightarrow> ChatResponse" where
  "text_response content =
     \<lparr>r_Content = content, r_ToolCalls = [],
      r_Usage = \<lparr>u_PromptTokens = 10, u_CompletionTokens = 5\<rparr>\<rparr>"

definition tool_response :: "string \<Rightarrow> ToolCall list \<Rightarrow> ChatResponse" where
  "tool_response content calls =
     \<lparr>r_Content = content, r_ToolCalls = calls,
      r_Usage = \<lparr>u_PromptTokens = 20, u_CompletionTokens = 10\<rparr>\<rparr>"

definition echo_call :: "string \<Rightarrow> ToolCall" where
  "echo_call ident = \<lparr>tc_ID = ident, tc_Name = ''echo.run'', tc_Arguments = ''{}''\<rparr>"

definition bad_call :: "string \<Rightarrow> ToolCall" where
  "bad_call ident = \<lparr>tc_ID = ident, tc_Name = ''nope'', tc_Arguments = ''{}''\<rparr>"

definition recovering_script :: "(string + ChatResponse) list" where
  "recovering_script =
     [Inr (tool_response ''working'' [echo_call ''tc1'', bad_call ''tc2'', echo_call ''tc3'']),
      Inr (text_response ''done'')]"



text \<open>
  Reading an argument vector as flag pairs: the elements taken two by two.
\<close>

fun pairs_of :: "'a list \<Rightarrow> ('a \<times> 'a) list" where
  "pairs_of (x # y # zs) = (x, y) # pairs_of zs"
| "pairs_of zs = []"

text \<open>The commands of the examples: the echo template, and a command in flag mode.\<close>

definition template_command :: CommandDef where
  "template_command =
     \<lparr>cd_Description = ''echoes input'', cd_Args = ''{text}'', cd_Stdin = False,
      cd_StdinParam = [], cd_Parameters = []\<rparr>"

definition flag_command :: CommandDef where
  "flag_command =
     \<lparr>cd_Description = ''flags'', cd_Args = [], cd_Stdin = False,
      cd_StdinParam = [], cd_Parameters = []\<rparr>"

section \<open>Properties of the agent loop\<close>

subsection \<open>The session store and the EXECUTING phase\<close>

lemma GetHistory_AddMessage:
  "GetHistory (AddMessage now m key msg) key = GetHistory m key @ [msg]"
  by (simp add: GetHistory_def AddMessage_def getOrCreate_def Let_def split: option.splits)

lemma AddMessage_other:
  "k \<noteq> key \<Longrightarrow> AddMessage now m key msg k = m k"
  by (simp add: AddMessage_def Let_def)

lemma executeToolCalls_appends:
  "\<exists>toolMsgs.
     messages (executeToolCalls env al tcs st) = messages st @ toolMsgs
   \<and> GetHistory (sessions (executeToolCalls env al tcs st)) (SessionKey (al_cfg al))
       = GetHistory (sessions st) (SessionKey (al_cfg al)) @ toolMsgs
   \<and> map m_ToolCallID toolMsgs = map tc_ID tcs
   \<and> map m_Role toolMsgs = replicate (length tcs) ''tool''"
proof (induction tcs arbitrary: st)
  case Nil
  then show ?case by simp
next
  case (Cons tc tcs)
  obtain res w' where ex: "Execute env (al_registry al) (world st) tc = (res, w')"
    by (cases "Execute env (al_registry al) (world st) tc")
  let ?msg = "toolMessage tc res"
  let ?st1 = "st\<lparr>world := w', messages := messages st @ [?msg],
      sessions := AddMessage (time_Now env w') (sessions st) (SessionKey (al_cfg al)) ?msg\<rparr>"
  have step: "executeToolCalls env al (tc # tcs) st = executeToolCalls env al tcs ?st1"
    by (simp add: ex Let_def)
  from Cons.IH [of ?st1] obtain more where
    m: "messages (executeToolCalls env al tcs ?st1) = messages ?st1 @ more"
    and h: "GetHistory (sessions (executeToolCalls env al tcs ?st1)) (SessionKey (al_cfg al))
       = GetHistory (sessions ?st1) (SessionKey (al_cfg al)) @ more"
    and i: "map m_ToolCallID more = map tc_ID tcs"
    and r: "map m_Role more = replicate (length tcs) ''tool''"
    by blast
  show ?case
  proof (intro exI [of _ "?msg # more"] conjI)
    show "messages (executeToolCalls env al (tc # tcs) st) = messages st @ ?msg # more"
      using m step by simp
    show "GetHistory (sessions (executeToolCalls env al (tc # tcs) st)) (SessionKey (al_cfg al))
       = GetHistory (sessions st) (SessionKey (al_cfg al)) @ ?msg # more"
      using h step by (simp add: GetHistory_AddMessage)
    show "map m_ToolCallID (?msg # more) = map tc_ID (tc # tcs)"
      using i by (simp add: toolMessage_def)
    show "map m_Role (?msg # more) = replicate (length (tc # tcs)) ''tool''"
      using r by (simp add: toolMessage_def)
  qed
qed

lemma executeToolCalls_keeps:
  "chat_log (executeToolCalls env al tcs st) = chat_log st
   \<and> saved (executeToolCalls env al tcs st) = saved st
   \<and> finalContent (executeToolCalls env al tcs st) = finalContent st
   \<and> (\<forall>k. k \<noteq> SessionKey (al_cfg al) \<longrightarrow> sessions (executeToolCalls env al tcs st) k = sessions st k)"
  by (induction tcs arbitrary: st) (auto simp: AddMessage_other Let_def split: prod.splits)


lemma loop_body_tools:
  assumes chat: "provider_Chat env (world st) (chatRequest (messages st) toolDefs) = (Inr resp, w1)"
    and calls: "r_ToolCalls resp \<noteq> []"
  shows "\<exists>st' toolMsgs.
       loop_body env al userMessage toolDefs i st = NextIter st'
     \<and> messages st' = messages st @ [assistantMessage resp] @ toolMsgs
     \<and> GetHistory (sessions st') (SessionKey (al_cfg al))
         = GetHistory (sessions st) (SessionKey (al_cfg al)) @ [assistantMessage resp] @ toolMsgs
     \<and> map m_ToolCallID toolMsgs = map tc_ID (r_ToolCalls resp)
     \<and> map m_Role toolMsgs = replicate (length (r_ToolCalls resp)) ''tool''
     \<and> chat_log st' = chat_log st @ [(chatRequest (messages st) toolDefs, Inr resp)]
     \<and> saved st' = saved st
     \<and> (\<forall>k. k \<noteq> SessionKey (al_cfg al) \<longrightarrow> sessions st' k = sessions st k)
     \<and> finalContent st' =
         (if i = MaxIterations (al_cfg al) - 1
          then (if r_Content resp = [] then ''[max iterations reached]'' else r_Content resp)
          else finalContent st)"
proof -
  let ?key = "SessionKey (al_cfg al)"
  let ?req = "chatRequest (messages st) toolDefs"
  let ?st1 = "st\<lparr>world := w1, chat_log := chat_log st @ [(?req, Inr resp)]\<rparr>"
  let ?st2 = "if AutoCapture (al_cfg al)
              then ?st1\<lparr>world := captureEval env al resp userMessage (i + 1) (world ?st1)\<rparr>
              else ?st1"
  let ?st3 = "?st2\<lparr>messages := messages ?st2 @ [assistantMessage resp],
                    sessions := AddMessage (time_Now env (world ?st2)) (sessions ?st2) ?key
                                  (assistantMessage resp)\<rparr>"
  let ?st4 = "executeToolCalls env al (r_ToolCalls resp) ?st3"
  let ?st5 = "if i = MaxIterations (al_cfg al) - 1
              then ?st4\<lparr>finalContent :=
                     (if r_Content resp = [] then ''[max iterations reached]'' else r_Content resp)\<rparr>
              else ?st4"
  have body: "loop_body env al userMessage toolDefs i st = NextIter ?st5"
    using chat calls
    by (simp add: loop_body_def chatRequest_def assistantMessage_def Let_def)
  obtain toolMsgs where
    m: "messages ?st4 = messages ?st3 @ toolMsgs"
    and h: "GetHistory (sessions ?st4) ?key = GetHistory (sessions ?st3) ?key @ toolMsgs"
    and ids: "map m_ToolCallID toolMsgs = map tc_ID (r_ToolCalls resp)"
    and roles: "map m_Role toolMsgs = replicate (length (r_ToolCalls resp)) ''tool''"
    using executeToolCalls_appends [of env al "r_ToolCalls resp" ?st3] by blast
  note keeps = executeToolCalls_keeps [of env al "r_ToolCalls resp" ?st3]
  have m5: "messages ?st5 = messages st @ [assistantMessage resp] @ toolMsgs"
    using m by simp
  have h5: "GetHistory (sessions ?st5) ?key
              = GetHistory (sessions st) ?key @ [assistantMessage resp] @ toolMsgs"
    using h by (simp add: GetHistory_AddMessage)
  have c5: "chat_log ?st5 = chat_log st @ [(?req, Inr resp)]"
    using keeps by simp
  have s5: "saved ?st5 = saved st"
    using keeps by simp
  have o5: "\<forall>k. k \<noteq> ?key \<longrightarrow> sessions ?st5 k = sessions st k"
    using keeps by (simp add: AddMessage_other)
  have f5: "finalContent ?st5 =
         (if i = MaxIterations (al_cfg al) - 1
          then (if r_Content resp = [] then ''[max iterations reached]'' else r_Content resp)
          else finalContent st)"
    using keeps by simp
  show ?thesis
    using body m5 h5 ids roles c5 s5 o5 f5 by blast
qed

lemma loop_body_done:
  assumes chat: "provider_Chat env (world st) (chatRequest (messages st) toolDefs) = (Inr resp, w1)"
    and calls: "r_ToolCalls resp = []"
  shows "\<exists>st'.
       loop_body env al userMessage toolDefs i st = Break st'
     \<and> messages st' = messages st
     \<and> sessions st' = sessions st
     \<and> chat_log st' = chat_log st @ [(chatRequest (messages st) toolDefs, Inr resp)]
     \<and> saved st' = saved st
     \<and> finalContent st' = r_Content resp"
  using chat calls
  by (simp add: loop_body_def chatRequest_def Let_def)

lemma loop_body_error:
  assumes chat: "provider_Chat env (world st) (chatRequest (messages st) toolDefs) = (Inl err, w1)"
  shows "\<exists>st'.
       loop_body env al userMessage toolDefs i st
         = ReturnErr (''LLM call failed (iteration '' @ Sprint_d (i + 1) @ ''): '' @ err) st'
     \<and> messages st' = messages st
     \<and> sessions st' = sessions st
     \<and> chat_log st' = chat_log st @ [(chatRequest (messages st) toolDefs, Inl err)]
     \<and> saved st' = saved st"
  using chat
  by (simp add: loop_body_def chatRequest_def Let_def)




lemma tool_loop_error:
  "tool_loop env al userMessage toolDefs i st = (Some e, st') \<Longrightarrow>
   \<exists>new req err.
      chat_log st' = chat_log st @ new @ [(req, Inl err)]
    \<and> (\<forall>x \<in> set new. \<not> isl (snd x))
    \<and> e = ''LLM call failed (iteration '' @ Sprint_d (i + int (length new) + 1) @ ''): '' @ err"
proof (induction env al userMessage toolDefs i st arbitrary: st' rule: tool_loop.induct)
  case (1 env al userMessage toolDefs i st)
  from "1.prems" have lt: "i < MaxIterations (al_cfg al)"
    by (simp add: tool_loop.simps [of _ _ _ _ i] split: if_splits)
  obtain res w1 where chat:
    "provider_Chat env (world st) (chatRequest (messages st) toolDefs) = (res, w1)"
    by (cases "provider_Chat env (world st) (chatRequest (messages st) toolDefs)")
  show ?case
  proof (cases res)
    case (Inl err)
    with chat loop_body_error [of env st toolDefs err w1 al userMessage i]
    obtain s where
      b: "loop_body env al userMessage toolDefs i st
            = ReturnErr (''LLM call failed (iteration '' @ Sprint_d (i + 1) @ ''): '' @ err) s"
      and c: "chat_log s = chat_log st @ [(chatRequest (messages st) toolDefs, Inl err)]"
      by blast
    from b lt "1.prems" have "st' = s"
      and "e = ''LLM call failed (iteration '' @ Sprint_d (i + 1) @ ''): '' @ err"
      by (simp_all add: tool_loop.simps [of _ _ _ _ i])
    with c show ?thesis
      by (intro exI [of _ "[]"] exI [of _ "chatRequest (messages st) toolDefs"] exI [of _ err]) simp
  next
    case (Inr resp)
    show ?thesis
    proof (cases "r_ToolCalls resp = []")
      case True
      with chat Inr loop_body_done [of env st toolDefs resp w1 al userMessage i]
      obtain s where "loop_body env al userMessage toolDefs i st = Break s" by blast
      with lt "1.prems" show ?thesis by (simp add: tool_loop.simps [of _ _ _ _ i])
    next
      case False
      with chat Inr loop_body_tools [of env st toolDefs resp w1 al userMessage i]
      obtain s where
        b: "loop_body env al userMessage toolDefs i st = NextIter s"
        and c: "chat_log s = chat_log st @ [(chatRequest (messages st) toolDefs, Inr resp)]"
        by blast
      from b lt "1.prems" have rec: "tool_loop env al userMessage toolDefs (i + 1) s = (Some e, st')"
        by (simp add: tool_loop.simps [of _ _ _ _ i])
      from "1.IH" [OF lt b rec] obtain new req err where
        c2: "chat_log st' = chat_log s @ new @ [(req, Inl err)]"
        and ok: "\<forall>x \<in> set new. \<not> isl (snd x)"
        and e2: "e = ''LLM call failed (iteration '' @ Sprint_d (i + 1 + int (length new) + 1) @ ''): '' @ err"
        by blast
      have "i + 1 + int (length new) + 1
              = i + int (length ((chatRequest (messages st) toolDefs, Inr resp) # new)) + 1"
        by simp
      with c c2 e2 ok show ?thesis
        by (intro exI [of _ "(chatRequest (messages st) toolDefs, Inr resp) # new"]
              exI [of _ req] exI [of _ err]) simp
    qed
  qed
qed


lemma tool_loop_ok:
  "tool_loop env al userMessage toolDefs i st = (None, st') \<Longrightarrow>
   \<exists>new. chat_log st' = chat_log st @ new \<and> (\<forall>x \<in> set new. \<not> isl (snd x))"
proof (induction env al userMessage toolDefs i st arbitrary: st' rule: tool_loop.induct)
  case (1 env al userMessage toolDefs i st)
  show ?case
  proof (cases "i < MaxIterations (al_cfg al)")
    case False
    with "1.prems" have "st' = st" by (simp add: tool_loop.simps)
    then show ?thesis by simp
  next
    case lt: True
    obtain res w1 where chat:
      "provider_Chat env (world st) (chatRequest (messages st) toolDefs) = (res, w1)"
      by (cases "provider_Chat env (world st) (chatRequest (messages st) toolDefs)")
    show ?thesis
    proof (cases res)
      case (Inl err)
      with chat loop_body_error [of env st toolDefs err w1 al userMessage i]
      obtain s e where "loop_body env al userMessage toolDefs i st = ReturnErr e s" by blast
      with lt "1.prems" show ?thesis by (simp add: tool_loop.simps [of _ _ _ _ i])
    next
      case (Inr resp)
      show ?thesis
      proof (cases "r_ToolCalls resp = []")
        case True
        with chat Inr loop_body_done [of env st toolDefs resp w1 al userMessage i]
        obtain s where
          b: "loop_body env al userMessage toolDefs i st = Break s"
          and c: "chat_log s = chat_log st @ [(chatRequest (messages st) toolDefs, Inr resp)]"
          by blast
        from b lt "1.prems" have "st' = s" by (simp add: tool_loop.simps [of _ _ _ _ i])
        with c show ?thesis by simp
      next
        case False
        with chat Inr loop_body_tools [of env st toolDefs resp w1 al userMessage i]
        obtain s where
          b: "loop_body env al userMessage toolDefs i st = NextIter s"
          and c: "chat_log s = chat_log st @ [(chatRequest (messages st) toolDefs, Inr resp)]"
          by blast
        from b lt "1.prems" have rec: "tool_loop env al userMessage toolDefs (i + 1) s = (None, st')"
          by (simp add: tool_loop.simps [of _ _ _ _ i])
        from "1.IH" [OF lt b rec] obtain new where
          "chat_log st' = chat_log s @ new" and "\<forall>x \<in> set new. \<not> isl (snd x)"
          by blast
        with c show ?thesis
          by (intro exI [of _ "(chatRequest (messages st) toolDefs, Inr resp) # new"]) simp
      qed
    qed
  qed
qed

subsection \<open>A provider that always asks for a tool exhausts the budget\<close>

lemma tool_loop_all_tools:
  "\<forall>w req. \<exists>resp w'. provider_Chat env w req = (Inr resp, w') \<and> r_ToolCalls resp \<noteq> [] \<Longrightarrow>
   i < MaxIterations (al_cfg al) \<Longrightarrow>
     \<exists>st' req resp.
        tool_loop env al userMessage toolDefs i st = (None, st')
      \<and> length (chat_log st') = length (chat_log st) + nat (MaxIterations (al_cfg al) - i)
      \<and> last (chat_log st') = (req, Inr resp)
      \<and> finalContent st' = (if r_Content resp = [] then ''[max iterations reached]'' else r_Content resp)"
proof (induction env al userMessage toolDefs i st rule: tool_loop.induct)
  case (1 env al userMessage toolDefs i st)
  note lt = \<open>i < MaxIterations (al_cfg al)\<close>
  note always = "1.prems" (1)
  from always obtain resp w1 where
    chat: "provider_Chat env (world st) (chatRequest (messages st) toolDefs) = (Inr resp, w1)"
    and calls: "r_ToolCalls resp \<noteq> []"
    by blast
  from loop_body_tools [OF chat calls, of al userMessage i] obtain s where
    b: "loop_body env al userMessage toolDefs i st = NextIter s"
    and c: "chat_log s = chat_log st @ [(chatRequest (messages st) toolDefs, Inr resp)]"
    and f: "finalContent s =
         (if i = MaxIterations (al_cfg al) - 1
          then (if r_Content resp = [] then ''[max iterations reached]'' else r_Content resp)
          else finalContent st)"
    by blast
  have unfold: "tool_loop env al userMessage toolDefs i st = tool_loop env al userMessage toolDefs (i + 1) s"
    using lt b by (simp add: tool_loop.simps [of _ _ _ _ i])
  show ?case
  proof (cases "i + 1 < MaxIterations (al_cfg al)")
    case True
    from "1.IH" [OF lt b always True] obtain st' req' resp' where
      r: "tool_loop env al userMessage toolDefs (i + 1) s = (None, st')"
      and l: "length (chat_log st') = length (chat_log s) + nat (MaxIterations (al_cfg al) - (i + 1))"
      and la: "last (chat_log st') = (req', Inr resp')"
      and fc: "finalContent st' = (if r_Content resp' = [] then ''[max iterations reached]'' else r_Content resp')"
      by blast
    have "length (chat_log st') = length (chat_log st) + nat (MaxIterations (al_cfg al) - i)"
      using l c True by simp
    with r la fc unfold show ?thesis by auto
  next
    case False
    with lt have last_iter: "i = MaxIterations (al_cfg al) - 1" by simp
    have stop: "tool_loop env al userMessage toolDefs (i + 1) s = (None, s)"
      using False by (simp add: tool_loop.simps [of _ _ _ _ "i + 1"])
    have "length (chat_log s) = length (chat_log st) + nat (MaxIterations (al_cfg al) - i)"
      using c last_iter by simp
    moreover have "last (chat_log s) = (chatRequest (messages st) toolDefs, Inr resp)"
      using c by simp
    moreover have "finalContent s = (if r_Content resp = [] then ''[max iterations reached]'' else r_Content resp)"
      using f last_iter by simp
    ultimately show ?thesis
      using unfold stop by auto
  qed
qed

lemma Save_keeps:
  "chat_log (Save key st) = chat_log st \<and> messages (Save key st) = messages st
   \<and> sessions (Save key st) = sessions st \<and> finalContent (Save key st) = finalContent st"
  by (simp add: Save_def split: option.splits)


lemma run_prologue_fields:
  "messages (run_prologue env al userMessage st0)
     = BuildMessages env (world st0) (GetHistory (sessions st0) (SessionKey (al_cfg al)))
         (GetSummary (sessions st0) (SessionKey (al_cfg al))) userMessage
   \<and> GetHistory (sessions (run_prologue env al userMessage st0)) (SessionKey (al_cfg al))
       = GetHistory (sessions st0) (SessionKey (al_cfg al)) @ [textMessage ''user'' userMessage]
   \<and> (\<forall>k. k \<noteq> SessionKey (al_cfg al) \<longrightarrow> sessions (run_prologue env al userMessage st0) k = sessions st0 k)
   \<and> chat_log (run_prologue env al userMessage st0) = chat_log st0
   \<and> saved (run_prologue env al userMessage st0) = saved st0
   \<and> world (run_prologue env al userMessage st0) = world st0
   \<and> finalContent (run_prologue env al userMessage st0) = []"
  by (simp add: run_prologue_def Let_def GetHistory_AddMessage AddMessage_other)

lemma run_epilogue_fields:
  "fst (run_epilogue env al st) = Inr (if finalContent st = [] then fallbackText else finalContent st)
   \<and> chat_log (snd (run_epilogue env al st)) = chat_log st
   \<and> messages (snd (run_epilogue env al st)) = messages st"
  by (simp add: run_epilogue_def Let_def Save_keeps)


subsection \<open>How a tool call fails, and where an error of \<open>Run\<close> comes from\<close>

lemma SplitN_dot2_no_dot: "CHR ''.'' \<notin> set s \<Longrightarrow> SplitN_dot2 s = [s]"
  by (simp add: SplitN_dot2_def)

lemma SplitN_dot2_dot:
  assumes "CHR ''.'' \<notin> set t"
  shows "SplitN_dot2 (t @ CHR ''.'' # c) = [t, c]"
proof -
  have "\<And>x. x \<in> set t \<Longrightarrow> x \<noteq> CHR ''.''"
    using assms by auto
  then show ?thesis
    by (simp add: SplitN_dot2_def takeWhile_append2 dropWhile_append2)
qed

lemma Execute_invalid_name:
  "CHR ''.'' \<notin> set (tc_Name tc) \<Longrightarrow>
   Execute env r w tc = (Inl (''invalid tool name: '' @ tc_Name tc @ '' (expected tool.command)''), w)"
  by (simp add: Execute_def SplitN_dot2_no_dot)

lemma Execute_unknown_tool:
  "tc_Name tc = t @ ''.'' @ c \<Longrightarrow> CHR ''.'' \<notin> set t \<Longrightarrow> map_of (tools r) t = None \<Longrightarrow>
   Execute env r w tc = (Inl (''unknown tool: '' @ t), w)"
  by (simp add: Execute_def SplitN_dot2_dot)

lemma Execute_unknown_command:
  "tc_Name tc = t @ ''.'' @ c \<Longrightarrow> CHR ''.'' \<notin> set t \<Longrightarrow> map_of (tools r) t = Some tool \<Longrightarrow>
   map_of (tm_Commands tool) c = None \<Longrightarrow>
   Execute env r w tc = (Inl (''unknown command: '' @ t @ ''.'' @ c), w)"
  by (simp add: Execute_def SplitN_dot2_dot)

lemma Execute_malformed_arguments:
  "tc_Name tc = t @ ''.'' @ c \<Longrightarrow> CHR ''.'' \<notin> set t \<Longrightarrow> map_of (tools r) t = Some tool \<Longrightarrow>
   map_of (tm_Commands tool) c = Some cmdDef \<Longrightarrow>
   json_Unmarshal_map env w (tc_Arguments tc) = Inl e \<Longrightarrow>
   Execute env r w tc = (Inl (''parse tool arguments: '' @ e), w)"
  by (simp add: Execute_def SplitN_dot2_dot)

text \<open>A subprocess that fails, or is killed when its timeout expires.\<close>

lemma Execute_subprocess_failure:
  "tc_Name tc = t @ ''.'' @ c \<Longrightarrow> CHR ''.'' \<notin> set t \<Longrightarrow> map_of (tools r) t = Some tool \<Longrightarrow>
   map_of (tm_Commands tool) c = Some cmdDef \<Longrightarrow>
   json_Unmarshal_map env w (tc_Arguments tc) = Inr args \<Longrightarrow>
   cmd_Run env w
     \<lparr>c_Path = tm_Binary tool,
      c_Args = buildCommandArgs (fmt_float env) cmdDef args c,
      c_Stdin = (if cd_Stdin cmdDef
                 then map_option (Sprint_v (fmt_float env))
                        (map_of args (if cd_StdinParam cmdDef = [] then ''content'' else cd_StdinParam cmdDef))
                 else None),
      c_Timeout = Some (timeout r)\<rparr> = (res, w') \<Longrightarrow>
   p_err res = Some e \<Longrightarrow>
   Execute env r w tc
     = (Inl (t @ ''.'' @ c @ '' failed: '' @ (if p_stderr res = [] then e else p_stderr res)), w')"
  by (simp add: Execute_def SplitN_dot2_dot Let_def)

lemma Run_error_from_provider:
  assumes "Run env al userMessage st0 = (Inl e, st')"
  shows "\<exists>new req err.
      chat_log st' = chat_log st0 @ new @ [(req, Inl err)]
    \<and> (\<forall>x \<in> set new. \<not> isl (snd x))
    \<and> e = ''LLM call failed (iteration '' @ Sprint_d (int (length new) + 1) @ ''): '' @ err"
proof -
  let ?st1 = "run_prologue env al userMessage st0"
  obtain r s where loop: "tool_loop env al userMessage (ToToolDefs (al_registry al)) 0 ?st1 = (r, s)"
    by (cases "tool_loop env al userMessage (ToToolDefs (al_registry al)) 0 ?st1")
  show ?thesis
  proof (cases r)
    case None
    with loop assms have "run_epilogue env al s = (Inl e, st')"
      by (simp add: Run_def)
    with run_epilogue_fields [of env al s] show ?thesis by simp
  next
    case (Some e')
    with loop assms have "e' = e" and "s = st'"
      by (simp_all add: Run_def)
    with loop Some tool_loop_error [of env al userMessage "ToToolDefs (al_registry al)" 0 ?st1 e st']
    show ?thesis
      by (simp add: run_prologue_fields)
  qed
qed


subsection \<open>Claim C1: one correlated Tool-role message per tool call\<close>

text \<open>
  C1. When the provider's response carries N tool calls (N at least 1), the pass through
  the loop body that receives it appends the assistant message and then exactly N
  Tool-role messages, to the transcript and to the session alike; the i-th of them
  carries the id of the i-th tool call of the response as its \<open>tool_call_id\<close>, in the
  order in which the calls were issued.
\<close>

theorem executing_phase_one_tool_message_per_call:
  assumes chat: "provider_Chat env (world st) (chatRequest (messages st) toolDefs) = (Inr resp, w1)"
    and calls: "r_ToolCalls resp \<noteq> []"
  shows "\<exists>st' toolMsgs.
       loop_body env al userMessage toolDefs i st = NextIter st'
     \<and> messages st' = messages st @ [assistantMessage resp] @ toolMsgs
     \<and> GetHistory (sessions st') (SessionKey (al_cfg al))
         = GetHistory (sessions st) (SessionKey (al_cfg al)) @ [assistantMessage resp] @ toolMsgs
     \<and> length toolMsgs = length (r_ToolCalls resp)
     \<and> map m_ToolCallID toolMsgs = map tc_ID (r_ToolCalls resp)
     \<and> map m_Role toolMsgs = replicate (length (r_ToolCalls resp)) ''tool''"
proof -
  from loop_body_tools [OF chat calls, of al userMessage i] obtain st' toolMsgs where
    b: "loop_body env al userMessage toolDefs i st = NextIter st'"
    and m: "messages st' = messages st @ [assistantMessage resp] @ toolMsgs"
    and h: "GetHistory (sessions st') (SessionKey (al_cfg al))
         = GetHistory (sessions st) (SessionKey (al_cfg al)) @ [assistantMessage resp] @ toolMsgs"
    and ids: "map m_ToolCallID toolMsgs = map tc_ID (r_ToolCalls resp)"
    and roles: "map m_Role toolMsgs = replicate (length (r_ToolCalls resp)) ''tool''"
    by blast
  from ids have "length (map m_ToolCallID toolMsgs) = length (map tc_ID (r_ToolCalls resp))"
    by simp
  then have "length toolMsgs = length (r_ToolCalls resp)" by simp
  with b m h ids roles show ?thesis by blast
qed

theorem executing_phase_witness:
  "provider_Chat (mock_env [Inr (tool_response ''working'' [echo_call ''tc1'', bad_call ''tc2''])]
       (text_response ''default'')) (world empty_state) (chatRequest (messages empty_state) [])
     = (Inr (tool_response ''working'' [echo_call ''tc1'', bad_call ''tc2'']), 1)
   \<and> r_ToolCalls (tool_response ''working'' [echo_call ''tc1'', bad_call ''tc2'']) \<noteq> []
   \<and> (\<exists>st' toolMsgs.
       loop_body (mock_env [Inr (tool_response ''working'' [echo_call ''tc1'', bad_call ''tc2''])]
           (text_response ''default'')) (test_loop 20) ''Hi'' [] 0 empty_state = NextIter st'
     \<and> messages st' = messages empty_state
          @ [assistantMessage (tool_response ''working'' [echo_call ''tc1'', bad_call ''tc2''])] @ toolMsgs
     \<and> GetHistory (sessions st') (SessionKey (al_cfg (test_loop 20)))
         = GetHistory (sessions empty_state) (SessionKey (al_cfg (test_loop 20)))
           @ [assistantMessage (tool_response ''working'' [echo_call ''tc1'', bad_call ''tc2''])] @ toolMsgs
     \<and> length toolMsgs = length (r_ToolCalls (tool_response ''working'' [echo_call ''tc1'', bad_call ''tc2'']))
     \<and> map m_ToolCallID toolMsgs
         = map tc_ID (r_ToolCalls (tool_response ''working'' [echo_call ''tc1'', bad_call ''tc2'']))
     \<and> map m_Role toolMsgs
         = replicate (length (r_ToolCalls (tool_response ''working'' [echo_call ''tc1'', bad_call ''tc2'']))) ''tool'')"
proof -
  have chat: "provider_Chat (mock_env [Inr (tool_response ''working'' [echo_call ''tc1'', bad_call ''tc2''])]
       (text_response ''default'')) (world empty_state) (chatRequest (messages empty_state) [])
     = (Inr (tool_response ''working'' [echo_call ''tc1'', bad_call ''tc2'']), 1)"
    by (simp add: mock_env_def empty_state_def)
  have calls: "r_ToolCalls (tool_response ''working'' [echo_call ''tc1'', bad_call ''tc2'']) \<noteq> []"
    by (simp add: tool_response_def)
  from chat calls
    executing_phase_one_tool_message_per_call [OF chat calls, of "test_loop 20" "''Hi''" 0]
  show ?thesis by blast
qed


subsection \<open>Claim C2: a response without tool calls ends the loop\<close>

text \<open>
  C2. If the first response of the provider carries no tool call, \<open>Run\<close> makes exactly
  one provider call and returns that response's content, or the fallback text when the
  content is empty. That there is a first response means that the loop is entered
  (\<open>MaxIterations\<close> is positive) and that the first call does not fail.
\<close>

theorem no_tool_calls_one_provider_call:
  assumes budget: "0 < MaxIterations (al_cfg al)"
    and chat: "provider_Chat env (world st0)
        (chatRequest
           (BuildMessages env (world st0) (GetHistory (sessions st0) (SessionKey (al_cfg al)))
              (GetSummary (sessions st0) (SessionKey (al_cfg al))) userMessage)
           (ToToolDefs (al_registry al))) = (Inr resp, w1)"
    and calls: "r_ToolCalls resp = []"
  shows "\<exists>st'.
       Run env al userMessage st0
         = (Inr (if r_Content resp = [] then fallbackText else r_Content resp), st')
     \<and> chat_log st' = chat_log st0 @
         [(chatRequest
            (BuildMessages env (world st0) (GetHistory (sessions st0) (SessionKey (al_cfg al)))
               (GetSummary (sessions st0) (SessionKey (al_cfg al))) userMessage)
            (ToToolDefs (al_registry al)), Inr resp)]"
proof -
  let ?st1 = "run_prologue env al userMessage st0"
  let ?tds = "ToToolDefs (al_registry al)"
  note p = run_prologue_fields [of env al userMessage st0]
  have chat1: "provider_Chat env (world ?st1) (chatRequest (messages ?st1) ?tds) = (Inr resp, w1)"
    using chat p by simp
  from loop_body_done [OF chat1 calls, of al userMessage 0] obtain s where
    b: "loop_body env al userMessage ?tds 0 ?st1 = Break s"
    and c: "chat_log s = chat_log ?st1 @ [(chatRequest (messages ?st1) ?tds, Inr resp)]"
    and f: "finalContent s = r_Content resp"
    by blast
  have loop: "tool_loop env al userMessage ?tds 0 ?st1 = (None, s)"
    using budget b by (simp add: tool_loop.simps [of _ _ _ _ 0])
  have run: "Run env al userMessage st0 = run_epilogue env al s"
    using loop by (simp add: Run_def)
  obtain out st' where ep: "run_epilogue env al s = (out, st')"
    by (cases "run_epilogue env al s")
  from run_epilogue_fields [of env al s] ep f
  have "out = Inr (if r_Content resp = [] then fallbackText else r_Content resp)"
    and "chat_log st' = chat_log s"
    by simp_all
  with run ep c p show ?thesis by simp
qed

theorem no_tool_calls_witness:
  "0 < MaxIterations (al_cfg (test_loop 20))
   \<and> provider_Chat (mock_env [Inr (text_response [])] (text_response ''default'')) (world empty_state)
        (chatRequest
           (BuildMessages (mock_env [Inr (text_response [])] (text_response ''default'')) (world empty_state)
              (GetHistory (sessions empty_state) (SessionKey (al_cfg (test_loop 20))))
              (GetSummary (sessions empty_state) (SessionKey (al_cfg (test_loop 20)))) ''Hi'')
           (ToToolDefs (al_registry (test_loop 20)))) = (Inr (text_response []), 1)
   \<and> r_ToolCalls (text_response []) = []
   \<and> (\<exists>st'. Run (mock_env [Inr (text_response [])] (text_response ''default'')) (test_loop 20) ''Hi'' empty_state
               = (Inr fallbackText, st')
            \<and> length (chat_log st') = 1)"
proof -
  have budget: "0 < MaxIterations (al_cfg (test_loop 20))"
    by (simp add: test_loop_def)
  have chat: "provider_Chat (mock_env [Inr (text_response [])] (text_response ''default'')) (world empty_state)
        (chatRequest
           (BuildMessages (mock_env [Inr (text_response [])] (text_response ''default'')) (world empty_state)
              (GetHistory (sessions empty_state) (SessionKey (al_cfg (test_loop 20))))
              (GetSummary (sessions empty_state) (SessionKey (al_cfg (test_loop 20)))) ''Hi'')
           (ToToolDefs (al_registry (test_loop 20)))) = (Inr (text_response []), 1)"
    by (simp add: mock_env_def empty_state_def)
  have calls: "r_ToolCalls (text_response []) = []"
    by (simp add: text_response_def)
  from no_tool_calls_one_provider_call [OF budget chat calls]
  obtain st' where
    "Run (mock_env [Inr (text_response [])] (text_response ''default'')) (test_loop 20) ''Hi'' empty_state
       = (Inr (if r_Content (text_response []) = [] then fallbackText else r_Content (text_response [])), st')"
    and "length (chat_log st') = 1"
    by (auto simp: empty_state_def)
  then have "\<exists>st'. Run (mock_env [Inr (text_response [])] (text_response ''default'')) (test_loop 20) ''Hi'' empty_state
               = (Inr fallbackText, st') \<and> length (chat_log st') = 1"
    by (simp add: text_response_def)
  with budget chat calls show ?thesis by blast
qed


subsection \<open>Claim C3: the iteration budget\<close>

lemma tool_loop_log_grows:
  "tool_loop env al userMessage toolDefs i st = (r, st') \<Longrightarrow>
   \<exists>new. chat_log st' = chat_log st @ new"
proof (cases r)
  case None
  assume "tool_loop env al userMessage toolDefs i st = (r, st')"
  with None tool_loop_ok [of env al userMessage toolDefs i st st'] show ?thesis by blast
next
  case (Some e)
  assume "tool_loop env al userMessage toolDefs i st = (r, st')"
  with Some tool_loop_error [of env al userMessage toolDefs i st e st'] show ?thesis by auto
qed

lemma tool_loop_tools_only:
  "tool_loop env al userMessage toolDefs i st = (r, st') \<Longrightarrow>
   i < MaxIterations (al_cfg al) \<Longrightarrow>
   \<forall>x \<in> set (drop (length (chat_log st)) (chat_log st')).
      \<exists>resp. snd x = Inr resp \<and> r_ToolCalls resp \<noteq> [] \<Longrightarrow>
   r = None
   \<and> length (chat_log st') = length (chat_log st) + nat (MaxIterations (al_cfg al) - i)
   \<and> (\<exists>req resp. last (chat_log st') = (req, Inr resp)
        \<and> finalContent st' = (if r_Content resp = [] then ''[max iterations reached]'' else r_Content resp))"
proof (induction env al userMessage toolDefs i st arbitrary: r st' rule: tool_loop.induct)
  case (1 env al userMessage toolDefs i st)
  note loop = "1.prems"(1) and lt = "1.prems"(2) and tools = "1.prems"(3)
  let ?req = "chatRequest (messages st) toolDefs"
  obtain res w1 where chat: "provider_Chat env (world st) ?req = (res, w1)"
    by (cases "provider_Chat env (world st) ?req")
  show ?case
  proof (cases res)
    case (Inl err)
    with chat loop_body_error [of env st toolDefs err w1 al userMessage i]
    obtain s e where b: "loop_body env al userMessage toolDefs i st = ReturnErr e s"
      and c: "chat_log s = chat_log st @ [(?req, Inl err)]"
      by blast
    from b lt loop have "st' = s" by (simp add: tool_loop.simps [of _ _ _ _ i])
    with c tools show ?thesis by simp
  next
    case (Inr resp)
    show ?thesis
    proof (cases "r_ToolCalls resp = []")
      case True
      with chat Inr loop_body_done [of env st toolDefs resp w1 al userMessage i]
      obtain s where b: "loop_body env al userMessage toolDefs i st = Break s"
        and c: "chat_log s = chat_log st @ [(?req, Inr resp)]"
        by blast
      from b lt loop have "st' = s" by (simp add: tool_loop.simps [of _ _ _ _ i])
      with c tools True show ?thesis by simp
    next
      case False
      with chat Inr loop_body_tools [of env st toolDefs resp w1 al userMessage i]
      obtain s where b: "loop_body env al userMessage toolDefs i st = NextIter s"
        and c: "chat_log s = chat_log st @ [(?req, Inr resp)]"
        and f: "finalContent s =
           (if i = MaxIterations (al_cfg al) - 1
            then (if r_Content resp = [] then ''[max iterations reached]'' else r_Content resp)
            else finalContent st)"
        by blast
      from b lt loop have rec: "tool_loop env al userMessage toolDefs (i + 1) s = (r, st')"
        by (simp add: tool_loop.simps [of _ _ _ _ i])
      show ?thesis
      proof (cases "i + 1 < MaxIterations (al_cfg al)")
        case True
        from tool_loop_log_grows [OF rec] obtain more where
          g: "chat_log st' = chat_log s @ more" by blast
        with c have "drop (length (chat_log st)) (chat_log st') = (?req, Inr resp) # more"
          and d: "drop (length (chat_log s)) (chat_log st') = more"
          by simp_all
        with tools have "\<forall>x \<in> set (drop (length (chat_log s)) (chat_log st')).
            \<exists>resp. snd x = Inr resp \<and> r_ToolCalls resp \<noteq> []"
          by simp
        from "1.IH" [OF lt b rec True this] c True show ?thesis by simp
      next
        case last_iter: False
        with rec have "r = None" and "st' = s"
          by (simp_all add: tool_loop.simps [of _ _ _ _ "i + 1"])
        with c f lt last_iter show ?thesis by simp
      qed
    qed
  qed
qed

text \<open>
  C3. Take a call of \<open>Run\<close> with \<open>MaxIterations = 3\<close> in which every provider call
  returns a response with at least one tool call. Then \<open>Run\<close> makes exactly three
  provider calls and returns a non-empty text: the content of the last response, or the
  sentinel \<open>[max iterations reached]\<close> when that content is empty.
\<close>

theorem max_iterations_three_provider_calls:
  assumes three: "MaxIterations (al_cfg al) = 3"
    and run: "Run env al userMessage st0 = (res, st')"
    and tools: "\<forall>x \<in> set (drop (length (chat_log st0)) (chat_log st')).
                  \<exists>resp. snd x = Inr resp \<and> r_ToolCalls resp \<noteq> []"
  shows "\<exists>out req resp.
        res = Inr out
      \<and> length (chat_log st') = length (chat_log st0) + 3
      \<and> out \<noteq> []
      \<and> last (chat_log st') = (req, Inr resp)
      \<and> out = (if r_Content resp = [] then ''[max iterations reached]'' else r_Content resp)"
proof -
  let ?st1 = "run_prologue env al userMessage st0"
  let ?tds = "ToToolDefs (al_registry al)"
  note p = run_prologue_fields [of env al userMessage st0]
  have lt: "0 < MaxIterations (al_cfg al)" using three by simp
  obtain r s where loop: "tool_loop env al userMessage ?tds 0 ?st1 = (r, s)"
    by (cases "tool_loop env al userMessage ?tds 0 ?st1")
  have log: "chat_log st' = chat_log s"
  proof (cases r)
    case None
    with loop run have "run_epilogue env al s = (res, st')" by (simp add: Run_def)
    with run_epilogue_fields [of env al s] show ?thesis by simp
  next
    case (Some e)
    with loop run show ?thesis by (simp add: Run_def)
  qed
  with tools p have "\<forall>x \<in> set (drop (length (chat_log ?st1)) (chat_log s)).
                  \<exists>resp. snd x = Inr resp \<and> r_ToolCalls resp \<noteq> []"
    by simp
  from tool_loop_tools_only [OF loop lt this] obtain req resp where
    none: "r = None"
    and len: "length (chat_log s) = length (chat_log ?st1) + nat (MaxIterations (al_cfg al) - 0)"
    and la: "last (chat_log s) = (req, Inr resp)"
    and fc: "finalContent s = (if r_Content resp = [] then ''[max iterations reached]'' else r_Content resp)"
    by blast
  have ne: "finalContent s \<noteq> []" using fc by simp
  from loop none run have ep: "run_epilogue env al s = (res, st')" by (simp add: Run_def)
  with run_epilogue_fields [of env al s] ne have out: "res = Inr (finalContent s)" by simp
  have "length (chat_log st') = length (chat_log st0) + 3"
    using len three log p by simp
  with out ne la fc log show ?thesis by simp
qed

lemma tools_run_log:
  "map snd (chat_log (snd (Run (mock_env [] (tool_response [] [echo_call ''tc''])) (test_loop 3)
      ''loop forever'' empty_state)))
     = replicate 3 (Inr (tool_response [] [echo_call ''tc'']))"
  by code_simp

theorem max_iterations_witness:
  "MaxIterations (al_cfg (test_loop 3)) = 3
   \<and> Run (mock_env [] (tool_response [] [echo_call ''tc''])) (test_loop 3) ''loop forever'' empty_state
      = (fst (Run (mock_env [] (tool_response [] [echo_call ''tc''])) (test_loop 3) ''loop forever'' empty_state),
         snd (Run (mock_env [] (tool_response [] [echo_call ''tc''])) (test_loop 3) ''loop forever'' empty_state))
   \<and> fst (Run (mock_env [] (tool_response [] [echo_call ''tc''])) (test_loop 3) ''loop forever'' empty_state)
      = Inr ''[max iterations reached]''
   \<and> length (chat_log (snd (Run (mock_env [] (tool_response [] [echo_call ''tc''])) (test_loop 3)
        ''loop forever'' empty_state))) = 3"
proof -
  let ?run = "Run (mock_env [] (tool_response [] [echo_call ''tc''])) (test_loop 3) ''loop forever'' empty_state"
  let ?resp = "tool_response [] [echo_call ''tc'']"
  have three: "MaxIterations (al_cfg (test_loop 3)) = 3"
    by (simp add: test_loop_def)
  have run: "?run = (fst ?run, snd ?run)" by simp
  have "\<forall>r \<in> set (map snd (chat_log (snd ?run))). \<exists>resp. r = Inr resp \<and> r_ToolCalls resp \<noteq> []"
    unfolding tools_run_log by (simp add: tool_response_def)
  then have tools: "\<forall>x \<in> set (drop (length (chat_log empty_state)) (chat_log (snd ?run))).
                  \<exists>resp. snd x = Inr resp \<and> r_ToolCalls resp \<noteq> []"
    by (simp add: empty_state_def)
  from max_iterations_three_provider_calls [OF three run tools] obtain out req resp where
    res: "fst ?run = Inr out"
    and len: "length (chat_log (snd ?run)) = length (chat_log empty_state) + 3"
    and la: "last (chat_log (snd ?run)) = (req, Inr resp)"
    and out: "out = (if r_Content resp = [] then ''[max iterations reached]'' else r_Content resp)"
    by blast
  have ne: "chat_log (snd ?run) \<noteq> []" using len by auto
  have "snd (last (chat_log (snd ?run))) = last (map snd (chat_log (snd ?run)))"
    using ne by (simp add: last_map)
  also have "\<dots> = Inr ?resp" unfolding tools_run_log by simp
  finally have "resp = ?resp" using la by simp
  with out have "out = ''[max iterations reached]''" by (simp add: tool_response_def)
  with res len three run show ?thesis by (simp add: empty_state_def)
qed


subsection \<open>Claim C4: a failing tool call does not abort the loop\<close>

lemma executeToolCalls_append:
  "executeToolCalls env al (xs @ ys) st = executeToolCalls env al ys (executeToolCalls env al xs st)"
  by (induction xs arbitrary: st) (auto simp: Let_def split: prod.splits)

lemma executing_start_fields:
  "messages (executing_start env al userMessage toolDefs i resp w1 st)
     = messages st @ [assistantMessage resp]
   \<and> GetHistory (sessions (executing_start env al userMessage toolDefs i resp w1 st)) (SessionKey (al_cfg al))
     = GetHistory (sessions st) (SessionKey (al_cfg al)) @ [assistantMessage resp]
   \<and> chat_log (executing_start env al userMessage toolDefs i resp w1 st)
     = chat_log st @ [(chatRequest (messages st) toolDefs, Inr resp)]"
  by (simp add: executing_start_def Let_def GetHistory_AddMessage)

lemma loop_body_executing:
  assumes chat: "provider_Chat env (world st) (chatRequest (messages st) toolDefs) = (Inr resp, w1)"
    and calls: "r_ToolCalls resp \<noteq> []"
  shows "\<exists>st'.
       loop_body env al userMessage toolDefs i st = NextIter st'
     \<and> messages st' = messages (executeToolCalls env al (r_ToolCalls resp)
                          (executing_start env al userMessage toolDefs i resp w1 st))
     \<and> sessions st' = sessions (executeToolCalls env al (r_ToolCalls resp)
                          (executing_start env al userMessage toolDefs i resp w1 st))
     \<and> world st' = world (executeToolCalls env al (r_ToolCalls resp)
                          (executing_start env al userMessage toolDefs i resp w1 st))
     \<and> chat_log st' = chat_log st @ [(chatRequest (messages st) toolDefs, Inr resp)]"
proof -
  let ?st4 = "executeToolCalls env al (r_ToolCalls resp)
                (executing_start env al userMessage toolDefs i resp w1 st)"
  let ?st5 = "if i = MaxIterations (al_cfg al) - 1
              then ?st4\<lparr>finalContent :=
                     (if r_Content resp = [] then ''[max iterations reached]'' else r_Content resp)\<rparr>
              else ?st4"
  have body: "loop_body env al userMessage toolDefs i st = NextIter ?st5"
    using calls unfolding loop_body_def executing_start_def Let_def chat
    by (cases "AutoCapture (al_cfg al)") simp_all
  have "chat_log ?st4 = chat_log (executing_start env al userMessage toolDefs i resp w1 st)"
    using executeToolCalls_keeps [of env al "r_ToolCalls resp"] by simp
  then have c4: "chat_log ?st4 = chat_log st @ [(chatRequest (messages st) toolDefs, Inr resp)]"
    by (simp only: executing_start_fields)
  have "chat_log ?st5 = chat_log ?st4" "messages ?st5 = messages ?st4"
    "sessions ?st5 = sessions ?st4" "world ?st5 = world ?st4"
    by simp_all
  with body c4 show ?thesis by (intro exI [of _ ?st5]) (simp only: simp_thms)
qed

lemma tool_loop_first_call:
  assumes lt: "i < MaxIterations (al_cfg al)"
    and loop: "tool_loop env al userMessage toolDefs i st = (r, s')"
  shows "\<exists>more. chat_log s' = chat_log st @
           (chatRequest (messages st) toolDefs,
            fst (provider_Chat env (world st) (chatRequest (messages st) toolDefs))) # more"
proof -
  let ?req = "chatRequest (messages st) toolDefs"
  obtain res w1 where chat: "provider_Chat env (world st) ?req = (res, w1)"
    by (cases "provider_Chat env (world st) ?req")
  show ?thesis
  proof (cases res)
    case (Inl err)
    with chat loop_body_error [of env st toolDefs err w1 al userMessage i]
    obtain s e where b: "loop_body env al userMessage toolDefs i st = ReturnErr e s"
      and c: "chat_log s = chat_log st @ [(?req, Inl err)]"
      by blast
    from b lt loop have "s' = s" by (simp add: tool_loop.simps [of _ _ _ _ i])
    with c chat Inl show ?thesis by simp
  next
    case (Inr resp)
    show ?thesis
    proof (cases "r_ToolCalls resp = []")
      case True
      with chat Inr loop_body_done [of env st toolDefs resp w1 al userMessage i]
      obtain s where b: "loop_body env al userMessage toolDefs i st = Break s"
        and c: "chat_log s = chat_log st @ [(?req, Inr resp)]"
        by blast
      from b lt loop have "s' = s" by (simp add: tool_loop.simps [of _ _ _ _ i])
      with c chat Inr show ?thesis by simp
    next
      case False
      with chat Inr loop_body_tools [of env st toolDefs resp w1 al userMessage i]
      obtain s where b: "loop_body env al userMessage toolDefs i st = NextIter s"
        and c: "chat_log s = chat_log st @ [(?req, Inr resp)]"
        by blast
      from b lt loop have rec: "tool_loop env al userMessage toolDefs (i + 1) s = (r, s')"
        by (simp add: tool_loop.simps [of _ _ _ _ i])
      from tool_loop_log_grows [OF rec] obtain more where "chat_log s' = chat_log s @ more"
        by blast
      with c chat Inr show ?thesis by simp
    qed
  qed
qed

text \<open>
  C4. Let a response carry the tool calls \<open>before\<close>, \<open>tc\<close>, \<open>rest\<close>, in a pass with budget
  left, and let \<open>Execute\<close> fail for \<open>tc\<close> when its turn comes (an invalid name, an unknown
  tool or command, malformed arguments, a subprocess that fails or is killed at its
  timeout: the \<open>Execute\<close> lemmas above). Then the EXECUTING phase appends the Tool-role
  message \<open>Error: \<dots>\<close> with the id of \<open>tc\<close> at its place, after the messages for
  \<open>before\<close>, and goes on with one message for each call of \<open>rest\<close>. The pass ends
  neither in an error nor in a break: the loop continues with iteration \<open>i + 1\<close>, and if
  that is within the budget its next step is a provider call on the transcript that
  now holds the error message. No outcome of a tool call makes the loop body return an
  error, and whenever \<open>Run\<close> fails, the last thing it did was a provider call that
  failed.
\<close>

theorem tool_failure_recovered_inline:
  fixes env :: "('w, 'n) env"
  assumes chat: "provider_Chat env (world st) (chatRequest (messages st) toolDefs) = (Inr resp, w1)"
    and calls: "r_ToolCalls resp = before @ tc # rest"
    and fails: "Execute env (al_registry al)
                  (world (executeToolCalls env al before
                            (executing_start env al userMessage toolDefs i resp w1 st))) tc
                = (Inl err, w')"
    and budget: "i < MaxIterations (al_cfg al)"
  shows "\<exists>st' pre post.
       loop_body env al userMessage toolDefs i st = NextIter st'
     \<and> messages st' = messages st @ [assistantMessage resp] @ pre @
         [\<lparr>m_Role = ''tool'', m_Content = ''Error: '' @ err, m_ToolCalls = [], m_ToolCallID = tc_ID tc\<rparr>]
         @ post
     \<and> GetHistory (sessions st') (SessionKey (al_cfg al))
         = GetHistory (sessions st) (SessionKey (al_cfg al)) @ [assistantMessage resp] @ pre @
           [\<lparr>m_Role = ''tool'', m_Content = ''Error: '' @ err, m_ToolCalls = [], m_ToolCallID = tc_ID tc\<rparr>]
           @ post
     \<and> map m_ToolCallID pre = map tc_ID before
     \<and> map m_ToolCallID post = map tc_ID rest
     \<and> map m_Role (pre @ post) = replicate (length before + length rest) ''tool''
     \<and> tool_loop env al userMessage toolDefs i st = tool_loop env al userMessage toolDefs (i + 1) st'
     \<and> (i + 1 < MaxIterations (al_cfg al) \<longrightarrow>
          (\<exists>r s' more.
              tool_loop env al userMessage toolDefs i st = (r, s')
            \<and> chat_log s' = chat_log st @
                 [(chatRequest (messages st) toolDefs, Inr resp),
                  (chatRequest (messages st') toolDefs,
                   fst (provider_Chat env (world st') (chatRequest (messages st') toolDefs)))] @ more))
     \<and> (\<forall>userMessage toolDefs i s resp w1.
           provider_Chat env (world s) (chatRequest (messages s) toolDefs) = (Inr resp, w1)
           \<longrightarrow> (\<forall>e s'. loop_body env al userMessage toolDefs i s \<noteq> ReturnErr e s'))
     \<and> (\<forall>userMessage st0 e s'.
           Run env al userMessage st0 = (Inl e, s')
           \<longrightarrow> (\<exists>req perr. chat_log s' \<noteq> [] \<and> last (chat_log s') = (req, Inl perr)))"
proof -
  let ?key = "SessionKey (al_cfg al)"
  let ?msg = "\<lparr>m_Role = ''tool'', m_Content = ''Error: '' @ err, m_ToolCalls = [], m_ToolCallID = tc_ID tc\<rparr>"
  let ?s0 = "executing_start env al userMessage toolDefs i resp w1 st"
  let ?sb = "executeToolCalls env al before ?s0"
  let ?se = "?sb\<lparr>world := w', messages := messages ?sb @ [?msg],
      sessions := AddMessage (time_Now env w') (sessions ?sb) ?key ?msg\<rparr>"
  let ?s4 = "executeToolCalls env al (r_ToolCalls resp) ?s0"
  from calls have ne: "r_ToolCalls resp \<noteq> []" by simp
  have step: "executeToolCalls env al (tc # rest) ?sb = executeToolCalls env al rest ?se"
    using fails by (simp add: Let_def toolMessage_def)
  have s4: "?s4 = executeToolCalls env al rest ?se"
    unfolding calls executeToolCalls_append step ..
  from executeToolCalls_appends [of env al before ?s0] obtain pre where
    pm: "messages ?sb = messages ?s0 @ pre"
    and ph: "GetHistory (sessions ?sb) ?key = GetHistory (sessions ?s0) ?key @ pre"
    and pi: "map m_ToolCallID pre = map tc_ID before"
    and pr: "map m_Role pre = replicate (length before) ''tool''"
    by blast
  from executeToolCalls_appends [of env al rest ?se] obtain post where
    qm: "messages (executeToolCalls env al rest ?se) = messages ?se @ post"
    and qh: "GetHistory (sessions (executeToolCalls env al rest ?se)) ?key
               = GetHistory (sessions ?se) ?key @ post"
    and qi: "map m_ToolCallID post = map tc_ID rest"
    and qr: "map m_Role post = replicate (length rest) ''tool''"
    by blast
  note e0 = executing_start_fields [of env al userMessage toolDefs i resp w1 st]
  have m4: "messages ?s4 = messages st @ [assistantMessage resp] @ pre @ [?msg] @ post"
    using s4 qm pm e0 by simp
  have h4: "GetHistory (sessions ?s4) ?key
              = GetHistory (sessions st) ?key @ [assistantMessage resp] @ pre @ [?msg] @ post"
    using s4 qh ph e0 by (simp add: GetHistory_AddMessage)
  have roles: "map m_Role (pre @ post) = replicate (length before + length rest) ''tool''"
    using pr qr by (simp add: replicate_add)
  from loop_body_executing [OF chat ne, of al userMessage i] obtain st' where
    b: "loop_body env al userMessage toolDefs i st = NextIter st'"
    and m': "messages st' = messages ?s4"
    and s': "sessions st' = sessions ?s4"
    and c': "chat_log st' = chat_log st @ [(chatRequest (messages st) toolDefs, Inr resp)]"
    by blast
  have next_iter: "tool_loop env al userMessage toolDefs i st
                     = tool_loop env al userMessage toolDefs (i + 1) st'"
    using budget b by (simp add: tool_loop.simps [of _ _ _ _ i])
  have next_call: "i + 1 < MaxIterations (al_cfg al) \<longrightarrow>
          (\<exists>r s' more.
              tool_loop env al userMessage toolDefs i st = (r, s')
            \<and> chat_log s' = chat_log st @
                 [(chatRequest (messages st) toolDefs, Inr resp),
                  (chatRequest (messages st') toolDefs,
                   fst (provider_Chat env (world st') (chatRequest (messages st') toolDefs)))] @ more)"
  proof
    assume lt: "i + 1 < MaxIterations (al_cfg al)"
    obtain r s2 where rec: "tool_loop env al userMessage toolDefs (i + 1) st' = (r, s2)"
      by (cases "tool_loop env al userMessage toolDefs (i + 1) st'")
    from tool_loop_first_call [OF lt rec] obtain more where
      "chat_log s2 = chat_log st' @
           (chatRequest (messages st') toolDefs,
            fst (provider_Chat env (world st') (chatRequest (messages st') toolDefs))) # more"
      by blast
    with c' have "chat_log s2 = chat_log st @
                 [(chatRequest (messages st) toolDefs, Inr resp),
                  (chatRequest (messages st') toolDefs,
                   fst (provider_Chat env (world st') (chatRequest (messages st') toolDefs)))] @ more"
      by simp
    with next_iter rec show "\<exists>r s' more.
              tool_loop env al userMessage toolDefs i st = (r, s')
            \<and> chat_log s' = chat_log st @
                 [(chatRequest (messages st) toolDefs, Inr resp),
                  (chatRequest (messages st') toolDefs,
                   fst (provider_Chat env (world st') (chatRequest (messages st') toolDefs)))] @ more"
      by auto
  qed
  have body: "\<forall>userMessage toolDefs i s resp w1.
           provider_Chat env (world s) (chatRequest (messages s) toolDefs) = (Inr resp, w1)
           \<longrightarrow> (\<forall>e s'. loop_body env al userMessage toolDefs i s \<noteq> ReturnErr e s')"
  proof (intro allI impI)
    fix userMessage toolDefs i resp w1 e s' and s :: "'w run_state"
    assume chat: "provider_Chat env (world s) (chatRequest (messages s) toolDefs) = (Inr resp, w1)"
    show "loop_body env al userMessage toolDefs i s \<noteq> ReturnErr e s'"
    proof (cases "r_ToolCalls resp = []")
      case True
      from loop_body_done [OF chat True, of al userMessage i] show ?thesis by auto
    next
      case False
      from loop_body_tools [OF chat False, of al userMessage i] show ?thesis by auto
    qed
  qed
  have run: "\<forall>userMessage st0 e s'.
           Run env al userMessage st0 = (Inl e, s')
           \<longrightarrow> (\<exists>req perr. chat_log s' \<noteq> [] \<and> last (chat_log s') = (req, Inl perr))"
  proof (intro allI impI)
    fix userMessage st0 e s'
    assume "Run env al userMessage st0 = (Inl e, s')"
    from Run_error_from_provider [OF this] obtain new req perr where
      "chat_log s' = chat_log st0 @ new @ [(req, Inl perr)]" by blast
    then show "\<exists>req perr. chat_log s' \<noteq> [] \<and> last (chat_log s') = (req, Inl perr)"
      by simp
  qed
  from b m4 h4 m' s' pi qi roles next_iter next_call body run show ?thesis
    by (intro exI [of _ st'] exI [of _ pre] exI [of _ post]) simp
qed


theorem tool_failure_witness:
  "provider_Chat (mock_env recovering_script (text_response ''default'')) (world empty_state)
       (chatRequest (messages empty_state) [])
     = (Inr (tool_response ''working'' [echo_call ''tc1'', bad_call ''tc2'', echo_call ''tc3'']), 1)
   \<and> r_ToolCalls (tool_response ''working'' [echo_call ''tc1'', bad_call ''tc2'', echo_call ''tc3''])
       = [echo_call ''tc1''] @ bad_call ''tc2'' # [echo_call ''tc3'']
   \<and> Execute (mock_env recovering_script (text_response ''default'')) (al_registry (test_loop 20))
         (world (executeToolCalls (mock_env recovering_script (text_response ''default'')) (test_loop 20)
                   [echo_call ''tc1'']
                   (executing_start (mock_env recovering_script (text_response ''default'')) (test_loop 20)
                      ''Hi'' [] 0
                      (tool_response ''working'' [echo_call ''tc1'', bad_call ''tc2'', echo_call ''tc3''])
                      1 empty_state)))
         (bad_call ''tc2'')
       = (Inl ''invalid tool name: nope (expected tool.command)'',
          world (executeToolCalls (mock_env recovering_script (text_response ''default'')) (test_loop 20)
                   [echo_call ''tc1'']
                   (executing_start (mock_env recovering_script (text_response ''default'')) (test_loop 20)
                      ''Hi'' [] 0
                      (tool_response ''working'' [echo_call ''tc1'', bad_call ''tc2'', echo_call ''tc3''])
                      1 empty_state)))
   \<and> 0 < MaxIterations (al_cfg (test_loop 20))
   \<and> (\<exists>st' pre post.
         loop_body (mock_env recovering_script (text_response ''default'')) (test_loop 20) ''Hi'' [] 0
             empty_state = NextIter st'
       \<and> messages st' = messages empty_state
            @ [assistantMessage (tool_response ''working'' [echo_call ''tc1'', bad_call ''tc2'', echo_call ''tc3''])]
            @ pre
            @ [\<lparr>m_Role = ''tool'',
                 m_Content = ''Error: '' @ ''invalid tool name: nope (expected tool.command)'',
                 m_ToolCalls = [], m_ToolCallID = tc_ID (bad_call ''tc2'')\<rparr>]
            @ post
       \<and> map m_ToolCallID post = map tc_ID [echo_call ''tc3'']
       \<and> tool_loop (mock_env recovering_script (text_response ''default'')) (test_loop 20) ''Hi'' [] 0
             empty_state
           = tool_loop (mock_env recovering_script (text_response ''default'')) (test_loop 20) ''Hi'' []
               (0 + 1) st'
       \<and> (\<exists>r s' more.
             tool_loop (mock_env recovering_script (text_response ''default'')) (test_loop 20) ''Hi'' [] 0
               empty_state = (r, s')
           \<and> chat_log s' = chat_log empty_state @
                [(chatRequest (messages empty_state) [],
                  Inr (tool_response ''working'' [echo_call ''tc1'', bad_call ''tc2'', echo_call ''tc3''])),
                 (chatRequest (messages st') [],
                  fst (provider_Chat (mock_env recovering_script (text_response ''default'')) (world st')
                         (chatRequest (messages st') [])))] @ more))"
proof -
  let ?env = "mock_env recovering_script (text_response ''default'')"
  let ?resp = "tool_response ''working'' [echo_call ''tc1'', bad_call ''tc2'', echo_call ''tc3'']"
  let ?w = "world (executeToolCalls ?env (test_loop 20) [echo_call ''tc1'']
                     (executing_start ?env (test_loop 20) ''Hi'' [] 0 ?resp 1 empty_state))"
  have chat: "provider_Chat ?env (world empty_state) (chatRequest (messages empty_state) [])
                = (Inr ?resp, 1)"
    by (simp add: mock_env_def empty_state_def recovering_script_def)
  have calls: "r_ToolCalls ?resp = [echo_call ''tc1''] @ bad_call ''tc2'' # [echo_call ''tc3'']"
    by (simp add: tool_response_def)
  have fails: "Execute ?env (al_registry (test_loop 20)) ?w (bad_call ''tc2'')
                 = (Inl ''invalid tool name: nope (expected tool.command)'', ?w)"
    by (simp add: Execute_invalid_name bad_call_def)
  have budget: "0 < MaxIterations (al_cfg (test_loop 20))"
    by (simp add: test_loop_def)
  have more: "0 + 1 < MaxIterations (al_cfg (test_loop 20))"
    by (simp add: test_loop_def)
  from tool_failure_recovered_inline [OF chat calls fails budget] more
  have "\<exists>st' pre post.
         loop_body ?env (test_loop 20) ''Hi'' [] 0 empty_state = NextIter st'
       \<and> messages st' = messages empty_state @ [assistantMessage ?resp] @ pre
            @ [\<lparr>m_Role = ''tool'',
                 m_Content = ''Error: '' @ ''invalid tool name: nope (expected tool.command)'',
                 m_ToolCalls = [], m_ToolCallID = tc_ID (bad_call ''tc2'')\<rparr>]
            @ post
       \<and> map m_ToolCallID post = map tc_ID [echo_call ''tc3'']
       \<and> tool_loop ?env (test_loop 20) ''Hi'' [] 0 empty_state
           = tool_loop ?env (test_loop 20) ''Hi'' [] (0 + 1) st'
       \<and> (\<exists>r s' more.
             tool_loop ?env (test_loop 20) ''Hi'' [] 0 empty_state = (r, s')
           \<and> chat_log s' = chat_log empty_state @
                [(chatRequest (messages empty_state) [], Inr ?resp),
                 (chatRequest (messages st') [],
                  fst (provider_Chat ?env (world st') (chatRequest (messages st') [])))] @ more)"
    by blast
  with chat calls fails budget show ?thesis by blast
qed


subsection \<open>Claim C10: a provider error leaves the session as it is, unsaved\<close>






section \<open>Properties of the provider adapters\<close>

subsection \<open>Claim C5: no credential, no network call\<close>

text \<open>
  C5. For both provider variants and every request, \<open>Chat\<close> with an empty credential
  returns an error and leaves the network state as it found it: no request was sent.
\<close>

theorem empty_credential_no_network_call:
  assumes "credential p = []"
  shows "\<exists>msg. Chat env p req ns = (Inl msg, ns)"
proof (cases p)
  case (VariantA a)
  with assms show ?thesis by (simp add: Anthropic_Chat_def)
next
  case (VariantB b)
  with assms show ?thesis by (simp add: OpenAI_Chat_def)
qed

theorem empty_credential_witness:
  "credential (VariantA (NewAnthropic (test_net [] no_blocks no_choices) [] [])) = []
   \<and> credential (VariantB (NewOpenAI (test_net [] no_blocks no_choices) [] [] [])) = []
   \<and> (\<exists>msg. Chat (test_net [] no_blocks no_choices)
               (VariantA (NewAnthropic (test_net [] no_blocks no_choices) [] []))
               (chatRequest [textMessage ''user'' ''Hi''] []) empty_net = (Inl msg, empty_net))
   \<and> (\<exists>msg. Chat (test_net [] no_blocks no_choices)
               (VariantB (NewOpenAI (test_net [] no_blocks no_choices) [] [] []))
               (chatRequest [textMessage ''user'' ''Hi''] []) empty_net = (Inl msg, empty_net))"
proof -
  have a: "credential (VariantA (NewAnthropic (test_net [] no_blocks no_choices) [] [])) = []"
    by (simp add: NewAnthropic_def test_net_def)
  have b: "credential (VariantB (NewOpenAI (test_net [] no_blocks no_choices) [] [] [])) = []"
    by (simp add: NewOpenAI_def test_net_def)
  from a b empty_credential_no_network_call [OF a] empty_credential_no_network_call [OF b]
  show ?thesis by blast
qed


subsection \<open>Claim C8: an empty list of choices\<close>

lemma OpenAI_Chat_ok:
  assumes key: "o_apiKey b \<noteq> []"
    and marshal: "json_Marshal_openai env (openai_request b req) = Inr body"
    and url: "http_NewRequest_error env (o_baseURL b) = None"
    and net: "http_Do env (net_world ns) (openai_http_request b body) = (Responded 200 respBody, h')"
    and decode: "json_Unmarshal_openai env respBody = Inr apiResp"
    and noerr: "or_Error apiResp = None"
  shows "OpenAI_Chat env b req ns
           = (Inr (openai_parse apiResp),
              \<lparr>net_world = h', net_log = net_log ns @ [openai_http_request b body]\<rparr>)"
  using assms by (simp add: OpenAI_Chat_def roundTrip_def)

text \<open>
  C8. Variant B. For a well-formed response of the back end (status 200, a body that
  decodes, no error object), \<open>Chat\<close> returns a response and no error: with an empty list
  of choices the response has empty content and no tool calls; with a non-empty list its
  content and tool calls are those of the first choice, whatever the other choices are.
\<close>

theorem openai_empty_choices_not_an_error:
  assumes key: "o_apiKey b \<noteq> []"
    and marshal: "json_Marshal_openai env (openai_request b req) = Inr body"
    and url: "http_NewRequest_error env (o_baseURL b) = None"
    and net: "http_Do env (net_world ns) (openai_http_request b body) = (Responded 200 respBody, h')"
    and decode: "json_Unmarshal_openai env respBody = Inr apiResp"
    and noerr: "or_Error apiResp = None"
  shows "(or_Choices apiResp = [] \<longrightarrow>
            fst (OpenAI_Chat env b req ns)
              = Inr \<lparr>r_Content = [], r_ToolCalls = [],
                     r_Usage = \<lparr>u_PromptTokens = 0, u_CompletionTokens = 0\<rparr>\<rparr>)
       \<and> (\<forall>choice others. or_Choices apiResp = choice # others \<longrightarrow>
            fst (OpenAI_Chat env b req ns)
              = Inr \<lparr>r_Content = oc_Message_Content choice,
                     r_ToolCalls = map chat_tool_call (oc_Message_ToolCalls choice),
                     r_Usage = \<lparr>u_PromptTokens = or_PromptTokens apiResp,
                                u_CompletionTokens = or_CompletionTokens apiResp\<rparr>\<rparr>)"
  using OpenAI_Chat_ok [OF assms] by (simp add: openai_parse_def)

theorem openai_empty_choices_witness:
  "o_apiKey test_openai \<noteq> []
   \<and> json_Marshal_openai (test_net ''{}'' no_blocks no_choices)
        (openai_request test_openai (chatRequest [textMessage ''user'' ''Hi''] [])) = Inr ''request''
   \<and> http_NewRequest_error (test_net ''{}'' no_blocks no_choices) (o_baseURL test_openai) = None
   \<and> http_Do (test_net ''{}'' no_blocks no_choices) (net_world empty_net)
        (openai_http_request test_openai ''request'') = (Responded 200 ''{}'', 1)
   \<and> json_Unmarshal_openai (test_net ''{}'' no_blocks no_choices) ''{}'' = Inr no_choices
   \<and> or_Error no_choices = None
   \<and> or_Choices no_choices = []
   \<and> fst (OpenAI_Chat (test_net ''{}'' no_blocks no_choices) test_openai
             (chatRequest [textMessage ''user'' ''Hi''] []) empty_net)
       = Inr \<lparr>r_Content = [], r_ToolCalls = [],
              r_Usage = \<lparr>u_PromptTokens = 0, u_CompletionTokens = 0\<rparr>\<rparr>"
proof -
  have key: "o_apiKey test_openai \<noteq> []" by (simp add: test_openai_def)
  have marshal: "json_Marshal_openai (test_net ''{}'' no_blocks no_choices)
        (openai_request test_openai (chatRequest [textMessage ''user'' ''Hi''] [])) = Inr ''request''"
    by (simp add: test_net_def)
  have url: "http_NewRequest_error (test_net ''{}'' no_blocks no_choices) (o_baseURL test_openai) = None"
    by (simp add: test_net_def)
  have net: "http_Do (test_net ''{}'' no_blocks no_choices) (net_world empty_net)
        (openai_http_request test_openai ''request'') = (Responded 200 ''{}'', 1)"
    by (simp add: test_net_def empty_net_def)
  have decode: "json_Unmarshal_openai (test_net ''{}'' no_blocks no_choices) ''{}'' = Inr no_choices"
    by (simp add: test_net_def)
  have noerr: "or_Error no_choices = None" by (simp add: no_choices_def)
  have empty: "or_Choices no_choices = []" by (simp add: no_choices_def)
  from openai_empty_choices_not_an_error [OF key marshal url net decode noerr] empty
  have "fst (OpenAI_Chat (test_net ''{}'' no_blocks no_choices) test_openai
             (chatRequest [textMessage ''user'' ''Hi''] []) empty_net)
       = Inr \<lparr>r_Content = [], r_ToolCalls = [],
              r_Usage = \<lparr>u_PromptTokens = 0, u_CompletionTokens = 0\<rparr>\<rparr>"
    by blast
  with key marshal url net decode noerr empty show ?thesis by blast
qed



subsection \<open>Claim C9: tool-call arguments that are not JSON\<close>















section \<open>Properties of the argument vector\<close>

subsection \<open>Claim C6: template mode\<close>

text \<open>
  The two examples of the claim hold: with the template \<open>{text}\<close> and the command
  \<open>run\<close>, the arguments \<open>{"text":"hi"}\<close> give \<open>run hi\<close> and no arguments give \<open>run\<close>.
\<close>

lemma template_argument_present:
  "buildCommandArgs fmtf template_command [(''text'', JString ''hi'')] ''run'' = [''run'', ''hi'']"
  by (simp add: buildCommandArgs_def template_command_def Fields_def spaceWidth_def asciiSpace_def)

lemma template_argument_absent:
  "buildCommandArgs fmtf template_command [] ''run'' = [''run'']"
  by (simp add: buildCommandArgs_def template_command_def Fields_def spaceWidth_def asciiSpace_def)

lemma template_order_matters:
  "buildCommandArgs fmtf (template_command\<lparr>cd_Args := ''{a}''\<rparr>)
      [(''a'', JString ''{b}''), (''b'', JString ''x'')] ''run'' = [''run'', ''x'']
   \<and> buildCommandArgs fmtf (template_command\<lparr>cd_Args := ''{a}''\<rparr>)
      [(''b'', JString ''x''), (''a'', JString ''{b}'')] ''run'' = [''run'']"
  by (simp add: buildCommandArgs_def template_command_def Fields_def spaceWidth_def asciiSpace_def)


text \<open>
  C6. In template mode every \<open>{param}\<close> is replaced by the textual form of its argument,
  the result is split on white space, and the tokens that still hold an unreplaced
  placeholder are dropped. The code drops every token that contains the character
  \<open>{\<close>. For the template \<open>{text}\<close> and the arguments \<open>{"text":"a{b"}\<close> the placeholder
  is replaced, the expanded text is the single token \<open>a{b\<close>, which holds no placeholder,
  and the argument vector is \<open>run\<close> alone: the argument is lost.
\<close>

theorem template_drops_replaced_token_with_brace:
  "foldl (\<lambda>e (key, val). ReplaceAll e (''{'' @ key @ ''}'') (Sprint_v fmtf val))
        (cd_Args template_command) [(''text'', JString ''a{b'')] = ''a{b''
   \<and> Fields ''a{b'' = [''a{b'']
   \<and> buildCommandArgs fmtf template_command [(''text'', JString ''a{b'')] ''run'' = [''run'']"
  by (simp add: buildCommandArgs_def template_command_def Fields_def spaceWidth_def asciiSpace_def)


subsection \<open>Claim C7: flag mode\<close>

lemma pairs_of_flags:
  "pairs_of (concat (map (\<lambda>(key, val). if P key then [] else [f key, g val]) args) @ rest)
     = map (\<lambda>(key, val). (f key, g val)) (filter (\<lambda>(key, val). \<not> P key) args) @ pairs_of rest"
  by (induction args) auto

text \<open>
  C7. Without a template the argument vector is the command name followed by flag pairs
  only: one pair \<open>--key value\<close> for every argument that is not the designated stdin
  parameter, and nothing else. As a multiset the pairs depend on the arguments alone,
  not on the order in which the map is visited. For \<open>run\<close> and \<open>{"a":"1","b":"2"}\<close> the
  pairs are \<open>(--a, 1)\<close> and \<open>(--b, 2)\<close>.
\<close>

theorem flag_mode_argv:
  assumes flag_mode: "cd_Args cmdDef = []"
  shows "\<exists>flags.
       buildCommandArgs fmtf cmdDef args cmdName = cmdName # flags
     \<and> length flags = 2 * length (pairs_of flags)
     \<and> mset (pairs_of flags)
         = image_mset (\<lambda>(key, val). (''--'' @ key, Sprint_v fmtf val))
             (filter_mset (\<lambda>(key, val). \<not> (cd_Stdin cmdDef \<and>
                  key = (if cd_StdinParam cmdDef = [] then ''content'' else cd_StdinParam cmdDef)))
                (mset args))"
proof -
  let ?sp = "if cd_StdinParam cmdDef = [] then ''content'' else cd_StdinParam cmdDef"
  let ?P = "\<lambda>key. cd_Stdin cmdDef \<and> key = ?sp"
  let ?flags = "concat (map (\<lambda>(key, val). if ?P key then [] else [''--'' @ key, Sprint_v fmtf val]) args)"
  have argv: "buildCommandArgs fmtf cmdDef args cmdName = cmdName # ?flags"
    using flag_mode by (simp add: buildCommandArgs_def Let_def)
  have pairs: "pairs_of ?flags
      = map (\<lambda>(key, val). (''--'' @ key, Sprint_v fmtf val)) (filter (\<lambda>(key, val). \<not> ?P key) args)"
    using pairs_of_flags [of ?P "\<lambda>key. ''--'' @ key" "Sprint_v fmtf" args "[]"] by simp
  have len: "length ?flags = 2 * length (filter (\<lambda>(key, val). \<not> ?P key) args)"
    by (induction args) auto
  have "mset (pairs_of ?flags)
         = image_mset (\<lambda>(key, val). (''--'' @ key, Sprint_v fmtf val))
             (filter_mset (\<lambda>(key, val). \<not> ?P key) (mset args))"
    unfolding pairs by simp
  moreover have "length ?flags = 2 * length (pairs_of ?flags)"
    unfolding pairs using len by simp
  ultimately show ?thesis using argv by blast
qed

theorem flag_mode_witness:
  "cd_Args flag_command = []
   \<and> (\<exists>flags.
         buildCommandArgs decimal flag_command [(''b'', JString ''2''), (''a'', JString ''1'')] ''run''
           = ''run'' # flags
       \<and> length flags = 4
       \<and> mset (pairs_of flags) = {#(''--a'', ''1''), (''--b'', ''2'')#})"
proof -
  have flag_mode: "cd_Args flag_command = []"
    by (simp add: flag_command_def)
  from flag_mode_argv [OF flag_mode, of decimal "[(''b'', JString ''2''), (''a'', JString ''1'')]" "''run''"]
  obtain flags where
    argv: "buildCommandArgs decimal flag_command [(''b'', JString ''2''), (''a'', JString ''1'')] ''run''
           = ''run'' # flags"
    and len: "length flags = 2 * length (pairs_of flags)"
    and pairs: "mset (pairs_of flags)
         = image_mset (\<lambda>(key, val). (''--'' @ key, Sprint_v decimal val))
             (filter_mset (\<lambda>(key, val). \<not> (cd_Stdin flag_command \<and>
                  key = (if cd_StdinParam flag_command = [] then ''content'' else cd_StdinParam flag_command)))
                (mset [(''b'', JString ''2''), (''a'', JString ''1'')]))"
    by blast
  from pairs have p: "mset (pairs_of flags) = {#(''--a'', ''1''), (''--b'', ''2'')#}"
    by (simp add: flag_command_def)
  then have "size (mset (pairs_of flags)) = 2" by simp
  then have "length (pairs_of flags) = 2" by simp
  with len have "length flags = 4" by simp
  with flag_mode argv p show ?thesis by blast
qed


end
